theory Spec2Isabelle
  imports Main "HOL-Library.Word"
begin

section \<open>Script classification (txscript/standard.go)\<close>

subsection \<open>Data model\<close>

type_synonym byte = "8 word"

text \<open>
  Go's \<open>error\<close> interface: an error value carrying its message. A function returning
  \<open>(T, error)\<close> is modelled with result type \<open>error + T\<close>, \<open>Inl\<close> being the
  non-nil error.
\<close>

datatype error = Error string

text \<open>
  \<open>opcode\<close> is the struct behind \<open>parsedOpcode.opcode\<close>; standard.go reads only its
  \<open>value\<close> byte (field \<open>opvalue\<close> here). A \<open>parsedOpcode\<close> is one decoded operation:
  the opcode and the data it pushes (empty when it pushes none).
\<close>

record opcode =
  opvalue :: byte

record parsedOpcode =
  opcode :: opcode
  data :: "byte list"

text \<open>\<open>ScriptClass\<close>, in the order of the \<open>iota\<close> enumeration.\<close>

datatype ScriptClass =
  NonStandardTy
  | PubKeyTy
  | PubKeyHashTy
  | ScriptHashTy
  | MultiSigTy
  | NullDataTy
  | AztecTy
  | GeneralAztecTy
  | AztecAdminTy

text \<open>
  standard.go uses opcode constants and helper functions of the package that are
  declared in files not among the sources (opcode.go, script.go). They are parameters of
  the model, collected in one record: every definition below takes it as its first
  argument, and every theorem holds for all values of it (under the hypotheses it
  states).
\<close>

record txscript =
  OP_RETURN :: byte
  OP_PUSHDATA4 :: byte
  OP_2 :: byte
  OP_3 :: byte
  OP_DATA_34 :: byte
  OP_DATA_38 :: byte
  OP_CHECKSAFEMULTISIG :: byte
  OP_CHECKTHREAD :: byte
  OP_PROVISIONINGKEYADD :: byte
  OP_PROVISIONINGKEYREVOKE :: byte
  OP_ISSUINGKEYADD :: byte
  OP_ISSUINGKEYREVOKE :: byte
  OP_VALIDATEKEYADD :: byte
  OP_VALIDATEKEYREVOKE :: byte
  OP_WSPKEYADD :: byte
  OP_WSPKEYREVOKE :: byte
  isSmallInt :: "opcode \<Rightarrow> bool"
  asSmallInt :: "opcode \<Rightarrow> int"
  isUint32 :: "opcode \<Rightarrow> bool"
  asInt32 :: "parsedOpcode \<Rightarrow> error + 32 word"
  ParseScript :: "byte list \<Rightarrow> error + parsedOpcode list"
  ExtractThreadID :: "parsedOpcode list \<Rightarrow> error + int"
  ParsePubKey :: "byte list \<Rightarrow> bool"

definition MaxDataCarrierSize :: nat where
  "MaxDataCarrierSize = 80"

text \<open>
  Modelled from the spec: the constants of \<open>rmgutil.ThreadID\<close> (rmgutil is not among the
  sources). The spec gives the governance threads the values Root = 0, Provision = 1,
  Issue = 2; the type is a signed integer, as the check \<open>threadID < RootThread\<close> of
  \<open>isAztecAdmin\<close> presupposes.
\<close>

type_synonym ThreadID = int

definition RootThread :: ThreadID where
  "RootThread = 0"

definition ProvisionThread :: ThreadID where
  "ProvisionThread = 1"

definition IssueThread :: ThreadID where
  "IssueThread = 2"

text \<open>
  Modelled from the spec: \<open>btcec.PubKeyBytesLenCompressed\<close> and \<open>btcec.KeyIDSize\<close> (btcec
  is not among the sources): a compressed public key has 33 bytes, a KeyID 4.
\<close>

definition PubKeyBytesLenCompressed :: nat where
  "PubKeyBytesLenCompressed = 33"

definition KeyIDSize :: nat where
  "KeyIDSize = 4"

subsection \<open>The classifiers\<close>

text \<open>
  The loop of \<open>isGeneralAztec\<close> over \<open>pops[1 : sLen-2]\<close>, with its three variables
  \<open>nKeyIDs\<close>, \<open>nKeyHashes\<close> and \<open>seenKeyIDs\<close> (a \<open>map[int32]bool\<close>). \<open>None\<close> is the
  loop's \<open>return false\<close>; \<open>Some\<close> holds the two counters at the end of the loop. An
  operation that neither carries 20 bytes of data nor satisfies \<open>isUint32\<close> takes no
  branch of the \<open>if\<close>/\<open>else if\<close> and is passed over.
\<close>

fun keyLoop ::
  "'a txscript_scheme \<Rightarrow> parsedOpcode list \<Rightarrow> int \<Rightarrow> int \<Rightarrow> (32 word \<rightharpoonup> bool)
    \<Rightarrow> (int \<times> int) option" where
  "keyLoop E [] nKeyIDs nKeyHashes seenKeyIDs = Some (nKeyIDs, nKeyHashes)"
| "keyLoop E (pop # rest) nKeyIDs nKeyHashes seenKeyIDs =
     (let dataLen = length (data pop) in
      if dataLen = 20 then
        (if nKeyIDs > 0 then None
         else keyLoop E rest nKeyIDs (nKeyHashes + 1) seenKeyIDs)
      else if isUint32 E (opcode pop) then
        (case asInt32 E pop of
           Inl err \<Rightarrow> None
         | Inr keyID \<Rightarrow>
             (if seenKeyIDs keyID \<noteq> None then None
              else keyLoop E rest (nKeyIDs + 1) nKeyHashes (seenKeyIDs(keyID \<mapsto> True))))
      else keyLoop E rest nKeyIDs nKeyHashes seenKeyIDs)"

definition isGeneralAztec :: "'a txscript_scheme \<Rightarrow> parsedOpcode list \<Rightarrow> bool" where
  "isGeneralAztec E pops =
     (let sLen = length pops in
      if sLen < 6 then False
      else if \<not> isSmallInt E (opcode (pops ! 0)) then False
      else if \<not> isSmallInt E (opcode (pops ! (sLen - 2))) then False
      else if opvalue (opcode (pops ! (sLen - 1))) \<noteq> OP_CHECKSAFEMULTISIG E then False
      else
        (let nSigs = asSmallInt E (opcode (pops ! 0));
             nKeys = asSmallInt E (opcode (pops ! (sLen - 2))) in
         if nSigs < 2 then False
         else if int sLen - 2 - 1 \<noteq> nKeys then False
         else
           (case keyLoop E (drop 1 (take (sLen - 2) pops)) 0 0 Map.empty of
              None \<Rightarrow> False
            | Some (nKeyIDs, nKeyHashes) \<Rightarrow>
                (if nKeyHashes \<ge> nSigs then False
                 else if nKeyIDs < nSigs then False
                 else True))))"

definition isAztec :: "'a txscript_scheme \<Rightarrow> parsedOpcode list \<Rightarrow> bool" where
  "isAztec E pops =
     (length pops = 6 \<and>
      opvalue (opcode (pops ! 0)) = OP_2 E \<and>
      opvalue (opcode (pops ! 4)) = OP_3 E \<and>
      isGeneralAztec E pops)"

definition isAztecAdmin :: "'a txscript_scheme \<Rightarrow> parsedOpcode list \<Rightarrow> bool" where
  "isAztecAdmin E pops =
     (let sLen = length pops in
      if sLen \<noteq> 2 then False
      else if opvalue (opcode (pops ! (sLen - 1))) \<noteq> OP_CHECKTHREAD E then False
      else
        (let threadID = asSmallInt E (opcode (pops ! 0)) in
         if threadID < RootThread \<or> threadID > IssueThread then False
         else True))"

definition isNullData :: "'a txscript_scheme \<Rightarrow> parsedOpcode list \<Rightarrow> bool" where
  "isNullData E pops =
     (let l = length pops in
      if l = 1 \<and> opvalue (opcode (pops ! 0)) = OP_RETURN E then True
      else
        l = 2 \<and>
        opvalue (opcode (pops ! 0)) = OP_RETURN E \<and>
        opvalue (opcode (pops ! 1)) \<le> OP_PUSHDATA4 E \<and>
        length (data (pops ! 1)) \<le> MaxDataCarrierSize)"

definition typeOfScript :: "'a txscript_scheme \<Rightarrow> parsedOpcode list \<Rightarrow> ScriptClass" where
  "typeOfScript E pops =
     (if isNullData E pops then NullDataTy
      else if isAztec E pops then AztecTy
      else if isGeneralAztec E pops then GeneralAztecTy
      else if isAztecAdmin E pops then AztecAdminTy
      else NonStandardTy)"

definition TypeOfScript :: "'a txscript_scheme \<Rightarrow> parsedOpcode list \<Rightarrow> ScriptClass" where
  "TypeOfScript E pops = typeOfScript E pops"

definition GetScriptClass :: "'a txscript_scheme \<Rightarrow> byte list \<Rightarrow> ScriptClass" where
  "GetScriptClass E script =
     (case ParseScript E script of
        Inl err \<Rightarrow> NonStandardTy
      | Inr pops \<Rightarrow> typeOfScript E pops)"

subsection \<open>Administrative transactions\<close>

text \<open>
  The parts of \<open>wire.MsgTx\<close> that the sources read and write (the wire package is not
  among them): a transaction is its inputs and its outputs; an output pays \<open>Value\<close> atoms
  (an \<open>int64\<close>) to the script \<open>PkScript\<close>. A \<open>chainhash.Hash\<close> is a \<open>[32]byte\<close>
  array, compared with \<open>==\<close>: 256 bits.
\<close>

type_synonym hash = "256 word"

record OutPoint =
  Hash :: hash
  Index :: "32 word"

record TxIn =
  PreviousOutPoint :: OutPoint
  SignatureScript :: "byte list"
  Sequence :: "32 word"

record TxOut =
  Value :: "64 word"
  PkScript :: "byte list"

record MsgTx =
  TxIn :: "TxIn list"
  TxOut :: "TxOut list"

text \<open>
  The loop of \<open>GetAdminDetails\<close> over the outputs after the first: each script is
  parsed, and the first parse error ends the function.
\<close>

fun parseOutputs :: "'a txscript_scheme \<Rightarrow> TxOut list \<Rightarrow> error + parsedOpcode list list" where
  "parseOutputs E [] = Inr []"
| "parseOutputs E (txOut # rest) =
     (case ParseScript E (PkScript txOut) of
        Inl err \<Rightarrow> Inl err
      | Inr pops \<Rightarrow>
          (case parseOutputs E rest of
             Inl err \<Rightarrow> Inl err
           | Inr others \<Rightarrow> Inr (pops # others)))"

text \<open>
  \<open>GetAdminDetails\<close> returns \<open>(int, [][]parsedOpcode)\<close>. The slice is an option here, so
  that the \<open>nil\<close> of the failure returns (\<open>None\<close>) differs from the empty slice that
  \<open>make([][]parsedOpcode, 0)\<close> allocates (\<open>Some []\<close>).
\<close>

definition GetAdminDetails ::
  "'a txscript_scheme \<Rightarrow> MsgTx \<Rightarrow> int \<times> parsedOpcode list list option" where
  "GetAdminDetails E tx =
     (if length (TxOut tx) < 1 then (- 1, None)
      else
        (case ParseScript E (PkScript (TxOut tx ! 0)) of
           Inl err \<Rightarrow> (- 1, None)
         | Inr pops \<Rightarrow>
             (if TypeOfScript E pops \<noteq> AztecAdminTy then (- 1, None)
              else
                (case ExtractThreadID E pops of
                   Inl err \<Rightarrow> (- 1, None)
                 | Inr threadID \<Rightarrow>
                     (case parseOutputs E (drop 1 (TxOut tx)) of
                        Inl err \<Rightarrow> (- 1, None)
                      | Inr adminOutputs \<Rightarrow> (threadID, Some adminOutputs))))))"

subsection \<open>Administrative operations\<close>

definition isWspOp :: "'a txscript_scheme \<Rightarrow> byte \<Rightarrow> bool" where
  "isWspOp E op = (op = OP_WSPKEYADD E \<or> op = OP_WSPKEYREVOKE E)"

definition isAdminOp :: "'a txscript_scheme \<Rightarrow> byte \<Rightarrow> bool" where
  "isAdminOp E op =
     (op = OP_PROVISIONINGKEYADD E \<or> op = OP_PROVISIONINGKEYREVOKE E \<or>
      op = OP_ISSUINGKEYADD E \<or> op = OP_ISSUINGKEYREVOKE E \<or>
      op = OP_VALIDATEKEYADD E \<or> op = OP_VALIDATEKEYREVOKE E \<or>
      op = OP_WSPKEYADD E \<or> op = OP_WSPKEYREVOKE E)"

text \<open>
  Modelled from the spec: \<open>ExtractAdminData\<close>, which \<open>IsValidAdminOp\<close> calls and which is
  declared in a file that is not among the sources. The spec (4.2, 6, 8): the script is a
  return-marker followed by one push of a payload; the payload is a 1-byte opcode and a
  33-byte compressed public key (34 bytes), or these and a 4-byte KeyID (38 bytes); the
  opcode is one of the eight administrative opcodes; only the WSP opcodes use length 38,
  and a mismatched combination of length and opcode is an error. The call site's comment
  (read op type byte and check valid key) adds that the key is checked: \<open>ParsePubKey\<close>,
  a parameter. The result is the opcode byte and the key bytes.
\<close>

definition ExtractAdminData ::
  "'a txscript_scheme \<Rightarrow> parsedOpcode list \<Rightarrow> error + (byte \<times> byte list)" where
  "ExtractAdminData E pops =
     (if length pops \<noteq> 2 then Inl (Error ''not an admin operation script'')
      else if opvalue (opcode (pops ! 0)) \<noteq> OP_RETURN E then
        Inl (Error ''not an admin operation script'')
      else
        (let payload = data (pops ! 1) in
         if length payload \<noteq> 1 + PubKeyBytesLenCompressed \<and>
            length payload \<noteq> 1 + PubKeyBytesLenCompressed + KeyIDSize then
           Inl (Error ''bad payload length'')
         else
           (let op = payload ! 0;
                keyData = take PubKeyBytesLenCompressed (drop 1 payload) in
            if \<not> isAdminOp E op then Inl (Error ''unknown admin opcode'')
            else if isWspOp E op \<and>
                    length payload \<noteq> 1 + PubKeyBytesLenCompressed + KeyIDSize then
              Inl (Error ''WSP operation without KeyID'')
            else if \<not> isWspOp E op \<and>
                    length payload = 1 + PubKeyBytesLenCompressed + KeyIDSize then
              Inl (Error ''KeyID on an operation that takes none'')
            else if \<not> ParsePubKey E keyData then Inl (Error ''invalid public key'')
            else Inr (op, keyData))))"

definition IsValidAdminOp ::
  "'a txscript_scheme \<Rightarrow> parsedOpcode list \<Rightarrow> ThreadID \<Rightarrow> bool" where
  "IsValidAdminOp E pops threadID =
     (if length pops \<noteq> 2 then False
      else if opvalue (opcode (pops ! 0)) \<noteq> OP_RETURN E then False
      else if opvalue (opcode (pops ! 1)) \<noteq> OP_DATA_34 E \<and>
              opvalue (opcode (pops ! 1)) \<noteq> OP_DATA_38 E then False
      else
        (case ExtractAdminData E pops of
           Inl err \<Rightarrow> False
         | Inr (op, keyData) \<Rightarrow>
             (if threadID = RootThread then
                (if op = OP_PROVISIONINGKEYADD E \<or>
                    op = OP_PROVISIONINGKEYREVOKE E \<or>
                    op = OP_ISSUINGKEYADD E \<or>
                    op = OP_ISSUINGKEYREVOKE E then True
                 else False)
              else if threadID = ProvisionThread then
                (if op = OP_VALIDATEKEYADD E \<or>
                    op = OP_VALIDATEKEYREVOKE E then True
                 else if op = OP_WSPKEYADD E \<or>
                         op = OP_WSPKEYREVOKE E then
                   (if length (data (pops ! 1)) =
                         1 + PubKeyBytesLenCompressed + KeyIDSize then True
                    else False)
                 else False)
              else if threadID = IssueThread then False
              else False)))"

subsection \<open>The claims' wording, as predicates\<close>

text \<open>
  The shape the spec gives the AdminOp class: exactly two operations, a return-marker
  followed by one push of 34 or 38 bytes.
\<close>

definition claimed_AdminOp_shape :: "'a txscript_scheme \<Rightarrow> parsedOpcode list \<Rightarrow> bool" where
  "claimed_AdminOp_shape E pops =
     (length pops = 2 \<and>
      opvalue (opcode (pops ! 0)) = OP_RETURN E \<and>
      (length (data (pops ! 1)) = 34 \<or> length (data (pops ! 1)) = 38))"

text \<open>
  The spec's table of the opcodes each governance thread may use: Root the Provision and
  Issue key operations, Provision the Validate and WSP key operations, Issue none.
\<close>

definition isLegalForThread :: "'a txscript_scheme \<Rightarrow> byte \<Rightarrow> ThreadID \<Rightarrow> bool" where
  "isLegalForThread E op threadID =
     (if threadID = RootThread then
        op = OP_PROVISIONINGKEYADD E \<or> op = OP_PROVISIONINGKEYREVOKE E \<or>
        op = OP_ISSUINGKEYADD E \<or> op = OP_ISSUINGKEYREVOKE E
      else if threadID = ProvisionThread then
        op = OP_VALIDATEKEYADD E \<or> op = OP_VALIDATEKEYREVOKE E \<or>
        op = OP_WSPKEYADD E \<or> op = OP_WSPKEYREVOKE E
      else False)"

subsection \<open>A concrete environment\<close>

text \<open>
  The theorems hold for every value of the parameters; the closed instances below need
  one. \<open>sample_env\<close> numbers the opcodes as Bitcoin script does (\<open>OP_0\<close> = 0x00, direct
  pushes 0x01 to 0x4b, \<open>OP_PUSHDATA4\<close> = 0x4e, \<open>OP_1\<close> to \<open>OP_16\<close> = 0x51 to 0x60,
  \<open>OP_RETURN\<close> = 0x6a), puts the two opcodes of this chain at 0xba and 0xbb, reads a
  small integer off \<open>OP_0\<close> and \<open>OP_1\<close> to \<open>OP_16\<close>, takes a direct push of four bytes
  for a KeyID (little endian), and parses scripts made of one-byte opcodes and direct
  pushes.
\<close>

definition sample_isSmallInt :: "opcode \<Rightarrow> bool" where
  "sample_isSmallInt op = (opvalue op = 0x00 \<or> (0x51 \<le> opvalue op \<and> opvalue op \<le> 0x60))"

definition sample_asSmallInt :: "opcode \<Rightarrow> int" where
  "sample_asSmallInt op = (if opvalue op = 0x00 then 0 else uint (opvalue op - 0x50))"

definition sample_isUint32 :: "opcode \<Rightarrow> bool" where
  "sample_isUint32 op = (opvalue op = 0x04)"

definition sample_asInt32 :: "parsedOpcode \<Rightarrow> error + 32 word" where
  "sample_asInt32 pop =
     (case data pop of
        [a, b, c, d] \<Rightarrow>
          Inr (ucast a + 256 * ucast b + 65536 * ucast c + 16777216 * ucast d)
      | _ \<Rightarrow> Inl (Error ''not a 4-byte number''))"

fun sample_ParseScript :: "byte list \<Rightarrow> error + parsedOpcode list" where
  "sample_ParseScript [] = Inr []"
| "sample_ParseScript (b # bs) =
     (if 0x01 \<le> b \<and> b \<le> 0x4b then
        (if length bs < unat b then Inl (Error ''short script'')
         else
           (case sample_ParseScript (drop (unat b) bs) of
              Inl err \<Rightarrow> Inl err
            | Inr pops \<Rightarrow>
                Inr (\<lparr>opcode = \<lparr>opvalue = b\<rparr>, data = take (unat b) bs\<rparr> # pops)))
      else if 0x4c \<le> b \<and> b \<le> 0x4e then Inl (Error ''length-prefixed push'')
      else
        (case sample_ParseScript bs of
           Inl err \<Rightarrow> Inl err
         | Inr pops \<Rightarrow> Inr (\<lparr>opcode = \<lparr>opvalue = b\<rparr>, data = []\<rparr> # pops)))"

definition sample_ExtractThreadID :: "parsedOpcode list \<Rightarrow> error + int" where
  "sample_ExtractThreadID pops =
     (if length pops = 2 then Inr (sample_asSmallInt (opcode (pops ! 0)))
      else Inl (Error ''not a thread script''))"

definition sample_env :: txscript where
  "sample_env =
     \<lparr>OP_RETURN = 0x6a, OP_PUSHDATA4 = 0x4e, OP_2 = 0x52, OP_3 = 0x53,
      OP_DATA_34 = 0x22, OP_DATA_38 = 0x26,
      OP_CHECKSAFEMULTISIG = 0xba, OP_CHECKTHREAD = 0xbb,
      OP_PROVISIONINGKEYADD = 0x01, OP_PROVISIONINGKEYREVOKE = 0x02,
      OP_ISSUINGKEYADD = 0x03, OP_ISSUINGKEYREVOKE = 0x04,
      OP_VALIDATEKEYADD = 0x11, OP_VALIDATEKEYREVOKE = 0x12,
      OP_WSPKEYADD = 0x13, OP_WSPKEYREVOKE = 0x14,
      isSmallInt = sample_isSmallInt, asSmallInt = sample_asSmallInt,
      isUint32 = sample_isUint32, asInt32 = sample_asInt32,
      ParseScript = sample_ParseScript, ExtractThreadID = sample_ExtractThreadID,
      ParsePubKey = (\<lambda>key. length key = 33)\<rparr>"

text \<open>One operation without data, and a direct push.\<close>

definition op_only :: "byte \<Rightarrow> parsedOpcode" where
  "op_only b = \<lparr>opcode = \<lparr>opvalue = b\<rparr>, data = []\<rparr>"

definition push_data :: "byte list \<Rightarrow> parsedOpcode" where
  "push_data bs = \<lparr>opcode = \<lparr>opvalue = of_nat (length bs)\<rparr>, data = bs\<rparr>"

definition admin_script :: "byte \<Rightarrow> nat \<Rightarrow> parsedOpcode list" where
  "admin_script op n =
     [op_only 0x6a, \<lparr>opcode = \<lparr>opvalue = of_nat n\<rparr>, data = op # replicate (n - 1) 0x02\<rparr>]"

text \<open>
  Three signatures out of four keys, with an \<open>OP_NOP\<close> (0x61) among the operands:
  \<open>OP_3 OP_NOP <1> <2> <3> OP_4 OP_CHECKSAFEMULTISIG\<close>.
\<close>

definition unlisted_operand_script :: "parsedOpcode list" where
  "unlisted_operand_script =
     [op_only 0x53, op_only 0x61,
      push_data [0x01, 0x00, 0x00, 0x00], push_data [0x02, 0x00, 0x00, 0x00],
      push_data [0x03, 0x00, 0x00, 0x00],
      op_only 0x54, op_only 0xba]"

subsection \<open>The wording of the claim on GeneralAztecTy\<close>

text \<open>
  An operation is a hash push when it carries 20 bytes of data, and a KeyID push when it
  is not one, \<open>isUint32\<close> holds of its opcode and \<open>asInt32\<close> decodes it; \<open>keyIDOf\<close> is
  the KeyID decoded. The operands of a script are the operations between the first and
  the second-to-last, \<open>pops[1 : sLen-2]\<close>. \<open>claimed_GeneralAdminAuth\<close> is the list of
  conditions the spec gives for the general form: at least 6 operations; the first a
  small integer \<open>nSigs\<close> of at least 2; the last \<open>OP_CHECKSAFEMULTISIG\<close>; the
  second-to-last a small integer equal to the number of operands; every operand a hash
  push or a KeyID push; the hash pushes before the others; the KeyIDs distinct; fewer
  hash pushes than \<open>nSigs\<close>; at least \<open>nSigs\<close> KeyID pushes.
\<close>

definition isHashPush :: "parsedOpcode \<Rightarrow> bool" where
  "isHashPush p = (length (data p) = 20)"

definition decodesKeyID :: "'a txscript_scheme \<Rightarrow> parsedOpcode \<Rightarrow> bool" where
  "decodesKeyID E p = (case asInt32 E p of Inl err \<Rightarrow> False | Inr keyID \<Rightarrow> True)"

definition keyIDOf :: "'a txscript_scheme \<Rightarrow> parsedOpcode \<Rightarrow> 32 word" where
  "keyIDOf E p = (case asInt32 E p of Inl err \<Rightarrow> 0 | Inr keyID \<Rightarrow> keyID)"

definition isKeyIDPush :: "'a txscript_scheme \<Rightarrow> parsedOpcode \<Rightarrow> bool" where
  "isKeyIDPush E p = (\<not> isHashPush p \<and> isUint32 E (opcode p) \<and> decodesKeyID E p)"

definition operands :: "parsedOpcode list \<Rightarrow> parsedOpcode list" where
  "operands pops = drop 1 (take (length pops - 2) pops)"

definition claimed_GeneralAdminAuth :: "'a txscript_scheme \<Rightarrow> parsedOpcode list \<Rightarrow> bool" where
  "claimed_GeneralAdminAuth E pops =
     (6 \<le> length pops \<and>
      isSmallInt E (opcode (pops ! 0)) \<and>
      2 \<le> asSmallInt E (opcode (pops ! 0)) \<and>
      opvalue (opcode (pops ! (length pops - 1))) = OP_CHECKSAFEMULTISIG E \<and>
      isSmallInt E (opcode (pops ! (length pops - 2))) \<and>
      asSmallInt E (opcode (pops ! (length pops - 2))) = int (length (operands pops)) \<and>
      (\<forall>p \<in> set (operands pops). isHashPush p \<or> isKeyIDPush E p) \<and>
      operands pops =
        filter isHashPush (operands pops) @ filter (\<lambda>p. \<not> isHashPush p) (operands pops) \<and>
      distinct (map (keyIDOf E) (filter (\<lambda>p. \<not> isHashPush p) (operands pops))) \<and>
      int (length (filter isHashPush (operands pops))) < asSmallInt E (opcode (pops ! 0)) \<and>
      asSmallInt E (opcode (pops ! 0))
        \<le> int (length (filter (\<lambda>p. \<not> isHashPush p) (operands pops))))"

text \<open>The 2-of-3 form: \<open>OP_2 <hash> <1> <2> OP_3 OP_CHECKSAFEMULTISIG\<close>.\<close>

definition two_of_three_script :: "parsedOpcode list" where
  "two_of_three_script =
     [op_only 0x52, push_data (replicate 20 0xab),
      push_data [0x01, 0x00, 0x00, 0x00], push_data [0x02, 0x00, 0x00, 0x00],
      op_only 0x53, op_only 0xba]"

section \<open>The block generator (blockchain/fullblocktests/generate.go)\<close>

subsection \<open>Blocks, panics and results\<close>

text \<open>
  The parts of \<open>wire.BlockHeader\<close> and \<open>wire.MsgBlock\<close> that generate.go reads and
  writes. \<open>Timestamp\<close> is a \<open>time.Time\<close>, counted in seconds; \<open>Version\<close> an \<open>int32\<close>,
  \<open>Bits\<close>, \<open>Height\<close> and \<open>Size\<close> are \<open>uint32\<close>, \<open>Nonce\<close> is a \<open>uint64\<close>.
\<close>

record BlockHeader =
  Version :: "32 word"
  PrevBlock :: hash
  MerkleRoot :: hash
  Timestamp :: int
  Bits :: "32 word"
  Height :: "32 word"
  Size :: "32 word"
  Nonce :: "64 word"

record MsgBlock =
  Header :: BlockHeader
  Transactions :: "MsgTx list"

record spendableOut =
  prevOut :: OutPoint
  pkScript :: "byte list"
  amount :: "64 word"

text \<open>
  A panic carries a value: a string (\<open>panic(fmt.Sprintf(...))\<close>), an error (the run-time
  errors of Go are errors: a nil dereference, an index out of range, a division by
  zero), or a value of another type. A call that may panic returns \<open>panic + 'a\<close>; a call
  that may also never return (it waits for a goroutine that loops forever) returns an
  option of it, \<open>None\<close> being that it does not return.
\<close>

datatype panic = PanicString string | PanicError error | PanicOther

type_synonym 'a result = "(panic + 'a) option"

definition nil_dereference :: panic where
  "nil_dereference =
     PanicError (Error ''runtime error: invalid memory address or nil pointer dereference'')"

definition index_out_of_range :: panic where
  "index_out_of_range = PanicError (Error ''runtime error: index out of range'')"

definition divide_by_zero :: panic where
  "divide_by_zero = PanicError (Error ''runtime error: integer divide by zero'')"

text \<open>\<open>%d\<close> of \<open>fmt.Sprintf\<close>: a number in decimal digits.\<close>

fun decimal_fuel :: "nat \<Rightarrow> nat \<Rightarrow> string" where
  "decimal_fuel 0 n = []"
| "decimal_fuel (Suc fuel) n =
     (if n < 10 then [char_of (48 + n)]
      else decimal_fuel fuel (n div 10) @ [char_of (48 + n mod 10)])"

definition decimal :: "nat \<Rightarrow> string" where
  "decimal n = decimal_fuel (Suc n) n"

text \<open>
  \<open>chaincfg.Params\<close>, as far as the generator reads it, and the generator's state.
  Pointers to blocks are options (\<open>None\<close> is \<open>nil\<close>); a Go map is a partial function, and
  reading a missing key gives the zero value of the element type. The field \<open>privKey\<close>
  is written once and never read, and is left out.
\<close>

record Params =
  GenesisBlock :: MsgBlock
  PowLimitBits :: "32 word"
  CoinbaseMaturity :: "16 word"

record testGenerator =
  params :: Params
  tip :: "MsgBlock option"
  tipName :: string
  tipHeight :: "32 word"
  blocks :: "hash \<rightharpoonup> MsgBlock"
  blocksByName :: "string \<rightharpoonup> MsgBlock"
  blockHeights :: "string \<rightharpoonup> 32 word"
  spendableOuts :: "spendableOut list"
  prevCollectedHash :: hash

text \<open>
  What generate.go takes from outside the sources, as parameters: the hash of a header
  and of a transaction, \<open>Header.Sign(privKey2)\<close>, the serialized size of a block, the
  merkle root \<open>BuildMerkleTreeStore\<close> computes for a non-empty list of transactions,
  \<open>CompactToBig\<close> and \<open>HashToBig\<close>, the number of processors. \<open>createCoinbaseTx\<close> and
  \<open>createSpendTx\<close> build scripts, draw random bytes and sign, and are parameters too, as
  is the clock (\<open>now\<close>: \<open>time.Now().Unix()\<close>). \<open>arrival\<close> is the scheduler's part in
  \<open>solveBlock\<close>: for a header, the order in which the workers' results reach the
  \<open>results\<close> channel, as a list of worker indices.
\<close>

record chain =
  BlockHash :: "BlockHeader \<Rightarrow> hash"
  TxHash :: "MsgTx \<Rightarrow> hash"
  Sign :: "BlockHeader \<Rightarrow> BlockHeader"
  SerializeSize :: "MsgBlock \<Rightarrow> nat"
  BuildMerkleRoot :: "MsgTx list \<Rightarrow> hash"
  CompactToBig :: "32 word \<Rightarrow> int"
  HashToBig :: "hash \<Rightarrow> int"
  NumCPU :: "32 word"
  arrival :: "BlockHeader \<Rightarrow> nat list"
  createCoinbaseTx :: "testGenerator \<Rightarrow> 32 word \<Rightarrow> MsgTx"
  createSpendTx :: "spendableOut \<Rightarrow> 64 word \<Rightarrow> MsgTx"
  now :: int

subsection \<open>makeSpendableOut, makeTestGenerator, calcMerkleRoot\<close>

definition makeSpendableOutForTx ::
  "'a chain_scheme \<Rightarrow> MsgTx \<Rightarrow> 32 word \<Rightarrow> panic + spendableOut" where
  "makeSpendableOutForTx E tx txOutIndex =
     (if length (TxOut tx) \<le> 0 \<or> length (TxOut tx) \<le> unat txOutIndex then
        Inl index_out_of_range
      else
        Inr \<lparr>prevOut = \<lparr>Hash = TxHash E tx, Index = txOutIndex\<rparr>,
             pkScript = PkScript (TxOut tx ! 0),
             amount = Value (TxOut tx ! unat txOutIndex)\<rparr>)"

definition makeSpendableOut ::
  "'a chain_scheme \<Rightarrow> MsgBlock option \<Rightarrow> 32 word \<Rightarrow> 32 word \<Rightarrow> panic + spendableOut" where
  "makeSpendableOut E block txIndex txOutIndex =
     (case block of
        None \<Rightarrow> Inl nil_dereference
      | Some b \<Rightarrow>
          (if length (Transactions b) \<le> unat txIndex then Inl index_out_of_range
           else makeSpendableOutForTx E (Transactions b ! unat txIndex) txOutIndex))"

text \<open>
  \<open>makeTestGenerator\<close> signs the genesis block in place (\<open>genesis\<close> is the pointer held
  by \<open>params\<close>) and never returns an error.
\<close>

definition makeTestGenerator :: "'a chain_scheme \<Rightarrow> Params \<Rightarrow> error + testGenerator" where
  "makeTestGenerator E ps =
     (let genesis = (GenesisBlock ps)\<lparr>Header := Sign E (Header (GenesisBlock ps))\<rparr>;
          genesisHash = BlockHash E (Header genesis) in
      Inr \<lparr>params = ps\<lparr>GenesisBlock := genesis\<rparr>,
           tip = Some genesis,
           tipName = ''genesis'',
           tipHeight = 0,
           blocks = [genesisHash \<mapsto> genesis],
           blocksByName = [''genesis'' \<mapsto> genesis],
           blockHeights = [''genesis'' \<mapsto> 0],
           spendableOuts = [],
           prevCollectedHash = 0\<rparr>)"

definition calcMerkleRoot :: "'a chain_scheme \<Rightarrow> MsgTx list \<Rightarrow> hash" where
  "calcMerkleRoot E txns = (if length txns = 0 then 0 else BuildMerkleRoot E txns)"

subsection \<open>solveBlock\<close>

record sbResult =
  found :: bool
  nonce :: "32 word"

text \<open>
  The closure \<open>solver\<close>: the loop \<open>for i := startNonce; i >= startNonce && i <= stopNonce; i++\<close>
  over a \<open>uint32\<close>, with \<open>i\<close> the loop variable; \<open>i + 1\<close> wraps around. The value is
  the \<open>sbResult\<close> the worker sends, \<open>None\<close> when the loop never ends. The \<open>quit\<close> channel
  is closed only once \<open>solveBlock\<close> has its answer, so a worker that stops early for
  it changes nothing in what \<open>solveBlock\<close> returns, and the model leaves it out.
\<close>

partial_function (option) solver ::
  "'a chain_scheme \<Rightarrow> int \<Rightarrow> BlockHeader \<Rightarrow> 32 word \<Rightarrow> 32 word \<Rightarrow> 32 word \<Rightarrow> sbResult option"
  where
  "solver E targetDifficulty hdr startNonce stopNonce i =
     (if i \<ge> startNonce \<and> i \<le> stopNonce then
        (if HashToBig E (BlockHash E (hdr\<lparr>Nonce := ucast i\<rparr>)) \<le> targetDifficulty then
           Some \<lparr>found = True, nonce = i\<rparr>
         else solver E targetDifficulty hdr startNonce stopNonce (i + 1))
      else Some \<lparr>found = False, nonce = 0\<rparr>)"

definition startNonce :: "32 word" where
  "startNonce = 1"

definition stopNonce :: "32 word" where
  "stopNonce = 0xFFFFFFFF"

definition noncesPerCore :: "32 word \<Rightarrow> 32 word" where
  "noncesPerCore numCores = (stopNonce - startNonce) div numCores"

definition rangeStart :: "32 word \<Rightarrow> 32 word \<Rightarrow> 32 word" where
  "rangeStart numCores i = startNonce + (noncesPerCore numCores * i)"

definition rangeStop :: "32 word \<Rightarrow> 32 word \<Rightarrow> 32 word" where
  "rangeStop numCores i =
     (if i = numCores - 1 then stopNonce
      else startNonce + (noncesPerCore numCores * (i + 1)) - 1)"

text \<open>The results of the workers \<open>0, ..., numCores - 1\<close>, each on its own range.\<close>

definition workers ::
  "'a chain_scheme \<Rightarrow> BlockHeader \<Rightarrow> 32 word \<Rightarrow> sbResult option list" where
  "workers E header numCores =
     map (\<lambda>k. solver E (CompactToBig E (Bits header)) header
                (rangeStart numCores (of_nat k)) (rangeStop numCores (of_nat k))
                (rangeStart numCores (of_nat k)))
       [0 ..< unat numCores]"

text \<open>
  The second loop of \<open>solveBlock\<close>: \<open>numCores\<close> times, take the next result off the
  channel; the first one that is found ends the search. The list is the order in which
  the workers' results arrive. Waiting for a worker that never sends is not returning.
\<close>

fun receive ::
  "nat \<Rightarrow> sbResult option list \<Rightarrow> nat list \<Rightarrow> BlockHeader \<Rightarrow> (bool \<times> BlockHeader) option" where
  "receive 0 results order header = Some (False, header)"
| "receive (Suc n) results [] header = None"
| "receive (Suc n) results (w # ws) header =
     (if w < length results then
        (case results ! w of
           None \<Rightarrow> None
         | Some result \<Rightarrow>
             (if found result then Some (True, header\<lparr>Nonce := ucast (nonce result)\<rparr>)
              else receive n results ws header))
      else None)"

text \<open>
  \<open>solveBlock\<close> returns a bool and writes the nonce through the pointer: the result is
  the bool and the header afterwards. The division by \<open>numCores\<close> panics when it is 0.
\<close>

definition solveBlock :: "'a chain_scheme \<Rightarrow> BlockHeader \<Rightarrow> (bool \<times> BlockHeader) result" where
  "solveBlock E header =
     (let numCores = NumCPU E in
      if numCores = 0 then Some (Inl divide_by_zero)
      else
        map_option Inr
          (receive (unat numCores) (workers E header numCores) (arrival E header) header))"

subsection \<open>nextBlock and setTip\<close>

text \<open>
  The transactions of the new block: the coinbase, and with a spendable output the
  coinbase with one atom more in its first output and the spending transaction.
\<close>

definition blockTransactions ::
  "'a chain_scheme \<Rightarrow> testGenerator \<Rightarrow> spendableOut option \<Rightarrow> panic + MsgTx list" where
  "blockTransactions E g spend =
     (let nextHeight = tipHeight g + 1;
          coinbaseTx = createCoinbaseTx E g nextHeight in
      case spend of
        None \<Rightarrow> Inr [coinbaseTx]
      | Some s \<Rightarrow>
          (let fee = 1 in
           case TxOut coinbaseTx of
             [] \<Rightarrow> Inl index_out_of_range
           | out0 # outs \<Rightarrow>
               Inr [coinbaseTx\<lparr>TxOut := out0\<lparr>Value := Value out0 + fee\<rparr> # outs\<rparr>,
                    createSpendTx E s fee]))"

text \<open>The block literal, on the tip \<open>tipBlock\<close>, two minutes after it.\<close>

definition draftBlock ::
  "'a chain_scheme \<Rightarrow> testGenerator \<Rightarrow> MsgBlock \<Rightarrow> MsgTx list \<Rightarrow> MsgBlock" where
  "draftBlock E g tipBlock txns =
     (let nextHeight = tipHeight g + 1;
          ts = (if nextHeight = 1 then now E else Timestamp (Header tipBlock) + 120) in
      \<lparr>Header =
         \<lparr>Version = 1,
          PrevBlock = BlockHash E (Header tipBlock),
          MerkleRoot = calcMerkleRoot E txns,
          Timestamp = ts,
          Bits = PowLimitBits (params g),
          Height = nextHeight,
          Size = 0,
          Nonce = 0\<rparr>,
       Transactions = txns\<rparr>)"

text \<open>
  A munge function receives the pointer to the block and changes the block: a function
  from blocks to blocks. They are applied in the order of the argument list.
\<close>

definition munge :: "(MsgBlock \<Rightarrow> MsgBlock) list \<Rightarrow> MsgBlock \<Rightarrow> MsgBlock" where
  "munge mungers block = foldl (\<lambda>b f. f b) block mungers"

text \<open>
  After the munge functions: the merkle root is recalculated if the header still holds
  \<open>curMerkleRoot\<close>, the size is set and the header signed.
\<close>

definition sealBlock :: "'a chain_scheme \<Rightarrow> hash \<Rightarrow> MsgBlock \<Rightarrow> MsgBlock" where
  "sealBlock E curMerkleRoot block =
     (let block1 =
            (if MerkleRoot (Header block) = curMerkleRoot then
               block\<lparr>Header := (Header block)\<lparr>MerkleRoot := calcMerkleRoot E (Transactions block)\<rparr>\<rparr>
             else block);
          block2 = block1\<lparr>Header := (Header block1)\<lparr>Size := of_nat (SerializeSize E block1)\<rparr>\<rparr>
      in block2\<lparr>Header := Sign E (Header block2)\<rparr>)"

text \<open>The update of the generator's state at the end of \<open>nextBlock\<close>.\<close>

definition registerBlock ::
  "'a chain_scheme \<Rightarrow> testGenerator \<Rightarrow> string \<Rightarrow> MsgBlock \<Rightarrow> testGenerator" where
  "registerBlock E g blockName block =
     (let nextHeight = tipHeight g + 1;
          blockHash = BlockHash E (Header block) in
      g\<lparr>blocks := (blocks g)(blockHash \<mapsto> block),
        blocksByName := (blocksByName g)(blockName \<mapsto> block),
        blockHeights := (blockHeights g)(blockName \<mapsto> nextHeight),
        tip := Some block,
        tipName := blockName,
        tipHeight := nextHeight\<rparr>)"

definition nextBlock ::
  "'a chain_scheme \<Rightarrow> testGenerator \<Rightarrow> string \<Rightarrow> spendableOut option \<Rightarrow>
    (MsgBlock \<Rightarrow> MsgBlock) list \<Rightarrow> (MsgBlock \<times> testGenerator) result" where
  "nextBlock E g blockName spend mungers =
     (case blockTransactions E g spend of
        Inl p \<Rightarrow> Some (Inl p)
      | Inr txns \<Rightarrow>
          (case tip g of
             None \<Rightarrow> Some (Inl nil_dereference)
           | Some tipBlock \<Rightarrow>
               (let draft = draftBlock E g tipBlock txns;
                    curMerkleRoot = MerkleRoot (Header draft);
                    curNonce = Nonce (Header draft);
                    block = sealBlock E curMerkleRoot (munge mungers draft) in
                if Nonce (Header block) = curNonce then
                  (case solveBlock E (Header block) of
                     None \<Rightarrow> None
                   | Some (Inl p) \<Rightarrow> Some (Inl p)
                   | Some (Inr (solved, header)) \<Rightarrow>
                       (if \<not> solved then
                          Some (Inl (PanicString
                            (''Unable to solve block at height '' @
                              decimal (unat (tipHeight g + 1)))))
                        else
                          Some (Inr (block\<lparr>Header := header\<rparr>,
                            registerBlock E g blockName (block\<lparr>Header := header\<rparr>)))))
                else Some (Inr (block, registerBlock E g blockName block)))))"

definition setTip :: "testGenerator \<Rightarrow> string \<Rightarrow> testGenerator" where
  "setTip g blockName =
     g\<lparr>tip := blocksByName g blockName,
       tipName := blockName,
       tipHeight := (case blockHeights g blockName of None \<Rightarrow> 0 | Some h \<Rightarrow> h)\<rparr>"

definition oldestCoinbaseOut :: "testGenerator \<Rightarrow> panic + (spendableOut \<times> testGenerator)" where
  "oldestCoinbaseOut g =
     (case spendableOuts g of
        [] \<Rightarrow> Inl index_out_of_range
      | op # rest \<Rightarrow> Inr (op, g\<lparr>spendableOuts := rest\<rparr>))"

definition saveTipCoinbaseOut :: "'a chain_scheme \<Rightarrow> testGenerator \<Rightarrow> panic + testGenerator" where
  "saveTipCoinbaseOut E g =
     (case makeSpendableOut E (tip g) 0 0 of
        Inl p \<Rightarrow> Inl p
      | Inr out \<Rightarrow>
          (case tip g of
             None \<Rightarrow> Inl nil_dereference
           | Some tipBlock \<Rightarrow>
               Inr (g\<lparr>spendableOuts := spendableOuts g @ [out],
                      prevCollectedHash := BlockHash E (Header tipBlock)\<rparr>)))"

text \<open>
  The generator states a run can reach, with the block names registered so far: the
  state \<open>makeTestGenerator\<close> returns knows \<open>genesis\<close>; a call of \<open>nextBlock\<close> that
  returns registers its block name; \<open>setTip\<close>, \<open>saveTipCoinbaseOut\<close> and
  \<open>oldestCoinbaseOut\<close> register none.
\<close>

inductive generated :: "'a chain_scheme \<Rightarrow> string set \<Rightarrow> testGenerator \<Rightarrow> bool"
  for E :: "'a chain_scheme" where
  made: "makeTestGenerator E ps = Inr g \<Longrightarrow> generated E {''genesis''} g"
| next_block:
    "generated E names g \<Longrightarrow> nextBlock E g blockName spend mungers = Some (Inr (block, g')) \<Longrightarrow>
     generated E (insert blockName names) g'"
| set_tip: "generated E names g \<Longrightarrow> generated E names (setTip g blockName)"
| save_out: "generated E names g \<Longrightarrow> saveTipCoinbaseOut E g = Inr g' \<Longrightarrow> generated E names g'"
| oldest_out:
    "generated E names g \<Longrightarrow> oldestCoinbaseOut g = Inr (out, g') \<Longrightarrow> generated E names g'"

subsection \<open>The claims' wording and a concrete chain\<close>

text \<open>
  The nonces of worker \<open>k\<close>'s range, from \<open>rangeStart\<close> to \<open>rangeStop\<close>, as numbers.
\<close>

definition searched :: "32 word \<Rightarrow> nat \<Rightarrow> nat set" where
  "searched numCores k =
     {unat (rangeStart numCores (of_nat k)) .. unat (rangeStop numCores (of_nat k))}"

text \<open>
  A concrete value of the parameters, for the closed instances: the hash of a header
  is \<open>(Nonce + 5) mod 8\<close>, so that with the target 0 the nonces that solve a block are
  3, 11, 19, ...; two processors, whose results arrive in the order 0, 1; signing
  changes nothing.
\<close>

definition sample_chain :: chain where
  "sample_chain =
     \<lparr>BlockHash = (\<lambda>h. ucast ((Nonce h + 5) mod 8)),
      TxHash = (\<lambda>tx. of_nat (length (TxOut tx))),
      Sign = (\<lambda>h. h),
      SerializeSize = (\<lambda>b. 80 + length (Transactions b)),
      BuildMerkleRoot = (\<lambda>txns. of_nat (length txns)),
      CompactToBig = uint,
      HashToBig = uint,
      NumCPU = 2,
      arrival = (\<lambda>h. [0, 1]),
      createCoinbaseTx = (\<lambda>g height. \<lparr>TxIn = [], TxOut = [\<lparr>Value = 50, PkScript = []\<rparr>]\<rparr>),
      createSpendTx = (\<lambda>s fee.
        \<lparr>TxIn = [\<lparr>PreviousOutPoint = prevOut s, SignatureScript = [], Sequence = 0xFFFFFFFF\<rparr>],
         TxOut = [\<lparr>Value = 0, PkScript = []\<rparr>]\<rparr>),
      now = 0\<rparr>"

definition sample_header :: BlockHeader where
  "sample_header =
     \<lparr>Version = 1, PrevBlock = 0, MerkleRoot = 0, Timestamp = 0, Bits = 0, Height = 0,
      Size = 0, Nonce = 0\<rparr>"

definition sample_params :: Params where
  "sample_params =
     \<lparr>GenesisBlock = \<lparr>Header = sample_header, Transactions = []\<rparr>,
      PowLimitBits = 0, CoinbaseMaturity = 2\<rparr>"

definition sample_generator :: testGenerator where
  "sample_generator =
     (case makeTestGenerator sample_chain sample_params of Inr g \<Rightarrow> g)"

text \<open>
  Two munge functions of the kind the block tests pass to \<open>nextBlock\<close>: one writes the
  merkle root of the header, one the nonce.
\<close>

definition setMerkleRoot :: "hash \<Rightarrow> MsgBlock \<Rightarrow> MsgBlock" where
  "setMerkleRoot root b = b\<lparr>Header := (Header b)\<lparr>MerkleRoot := root\<rparr>\<rparr>"

definition setNonce :: "64 word \<Rightarrow> MsgBlock \<Rightarrow> MsgBlock" where
  "setNonce n b = b\<lparr>Header := (Header b)\<lparr>Nonce := n\<rparr>\<rparr>"

subsection \<open>Generate\<close>

text \<open>
  A test instance: the expected outcome for one block. The block is the pointer the
  generator holds (\<open>None\<close> is \<open>nil\<close>). A public key is its bytes, a key set type and an
  error code are numbers, a KeyID is a \<open>uint32\<close>; \<open>AdminKeySets\<close> is a map from key set
  types to slices of keys (a missing key reads as the empty slice), \<open>WspKeyIdMap\<close> a
  map from KeyIDs to keys.
\<close>

type_synonym PublicKey = "byte list"
type_synonym KeySetType = nat
type_synonym KeyID = "32 word"
type_synonym ErrorCode = nat
type_synonym AdminKeySets = "KeySetType \<Rightarrow> PublicKey list"
type_synonym KeyIdMap = "KeyID \<rightharpoonup> PublicKey"

datatype TestInstance =
  AcceptedBlock string "MsgBlock option" "32 word" bool bool AdminKeySets KeyIdMap
  | RejectedBlock string "MsgBlock option" "32 word" ErrorCode
  | OrphanOrRejectedBlock string "MsgBlock option" "32 word"
  | ExpectedTip string "MsgBlock option" "32 word"
  | RejectedNonCanonicalBlock string "byte list" "32 word"

text \<open>
  What \<open>Generate\<close> takes from outside the sources, beyond the parameters of the chain:
  the regression network's parameters with its key sets, the two public keys, the
  transactions \<open>createAdminTx\<close> and \<open>createWspAdminTx\<close> build and sign (they may panic
  while building a script), \<open>KeyIDFromAddressBuffer\<close>, and the constants
  \<open>btcec.IssueKeySet\<close>, \<open>blockchain.ErrMissingTx\<close>, \<open>txscript.OP_ISSUINGKEYADD\<close>,
  \<open>OP_ISSUINGKEYREVOKE\<close> and \<open>OP_WSPKEYADD\<close>.
\<close>

record fixtures = chain +
  RegressionNetParams :: Params
  RegressionAdminKeySets :: AdminKeySets
  RegressionWspKeyIdMap :: KeyIdMap
  pubKey1 :: PublicKey
  pubKey2 :: PublicKey
  createAdminTx :: "spendableOut \<Rightarrow> ThreadID \<Rightarrow> byte \<Rightarrow> PublicKey \<Rightarrow> panic + MsgTx"
  createWspAdminTx :: "spendableOut \<Rightarrow> byte \<Rightarrow> PublicKey \<Rightarrow> KeyID \<Rightarrow> panic + MsgTx"
  KeyIDFromAddressBuffer :: "byte list \<Rightarrow> KeyID"
  IssueKeySet :: KeySetType
  ErrMissingTx :: ErrorCode
  ISSUINGKEYADD :: byte
  ISSUINGKEYREVOKE :: byte
  WSPKEYADD :: byte

text \<open>Sequencing: the second call runs if the first returns without a panic.\<close>

definition andThen :: "'a result \<Rightarrow> ('a \<Rightarrow> 'b result) \<Rightarrow> 'b result" where
  "andThen m f = (case m of None \<Rightarrow> None | Some (Inl p) \<Rightarrow> Some (Inl p) | Some (Inr x) \<Rightarrow> f x)"

definition returned :: "panic + 'a \<Rightarrow> 'a result" where
  "returned x = Some x"

text \<open>\<open>outs[i]\<close>, with the index check of a slice.\<close>

definition outAt :: "spendableOut list \<Rightarrow> nat \<Rightarrow> spendableOut result" where
  "outAt outs i = (if i < length outs then Some (Inr (outs ! i)) else Some (Inl index_out_of_range))"

text \<open>\<open>g.nextBlock(...)\<close> as a statement: the returned block is dropped.\<close>

definition nextBlockStmt ::
  "'a chain_scheme \<Rightarrow> string \<Rightarrow> spendableOut option \<Rightarrow> (MsgBlock \<Rightarrow> MsgBlock) list \<Rightarrow>
    testGenerator \<Rightarrow> testGenerator result" where
  "nextBlockStmt E blockName spend mungers g =
     andThen (nextBlock E g blockName spend mungers) (\<lambda>(block, g'). Some (Inr g'))"

definition additionalTx :: "MsgTx \<Rightarrow> MsgBlock \<Rightarrow> MsgBlock" where
  "additionalTx tx b = b\<lparr>Transactions := Transactions b @ [tx]\<rparr>"

text \<open>The closures of \<open>Generate\<close> that build one test instance.\<close>

definition heightOf :: "testGenerator \<Rightarrow> string \<Rightarrow> 32 word" where
  "heightOf g blockName = (case blockHeights g blockName of None \<Rightarrow> 0 | Some h \<Rightarrow> h)"

definition acceptBlock ::
  "'a fixtures_scheme \<Rightarrow> testGenerator \<Rightarrow> string \<Rightarrow> MsgBlock option \<Rightarrow> bool \<Rightarrow> bool \<Rightarrow>
    TestInstance" where
  "acceptBlock F g blockName block isMainChain isOrphan =
     AcceptedBlock blockName block (heightOf g blockName) isMainChain isOrphan
       (RegressionAdminKeySets F) (RegressionWspKeyIdMap F)"

definition rejectBlock ::
  "testGenerator \<Rightarrow> string \<Rightarrow> MsgBlock option \<Rightarrow> ErrorCode \<Rightarrow> TestInstance" where
  "rejectBlock g blockName block code = RejectedBlock blockName block (heightOf g blockName) code"

definition expectTipBlock :: "testGenerator \<Rightarrow> string \<Rightarrow> MsgBlock option \<Rightarrow> TestInstance" where
  "expectTipBlock g blockName block = ExpectedTip blockName block (heightOf g blockName)"

definition acceptBlockwithAdminKeys ::
  "'a fixtures_scheme \<Rightarrow> testGenerator \<Rightarrow> string \<Rightarrow> MsgBlock option \<Rightarrow> bool \<Rightarrow> bool \<Rightarrow>
    AdminKeySets \<Rightarrow> TestInstance" where
  "acceptBlockwithAdminKeys F g blockName block isMainChain isOrphan adminKeySets =
     AcceptedBlock blockName block (heightOf g blockName) isMainChain isOrphan
       adminKeySets (RegressionWspKeyIdMap F)"

definition acceptBlockwithWspKeys ::
  "'a fixtures_scheme \<Rightarrow> testGenerator \<Rightarrow> string \<Rightarrow> MsgBlock option \<Rightarrow> bool \<Rightarrow> bool \<Rightarrow>
    PublicKey \<Rightarrow> KeyID \<Rightarrow> TestInstance" where
  "acceptBlockwithWspKeys F g blockName block isMainChain isOrphan adminKey keyID =
     AcceptedBlock blockName block (heightOf g blockName) isMainChain isOrphan
       (RegressionAdminKeySets F) (RegressionWspKeyIdMap F)"

text \<open>
  The closures that append one group to \<open>tests\<close>. They read the generator and return
  the new \<open>tests\<close>; \<open>adminKeys\<close> is a slice, \<open>None\<close> being \<open>nil\<close>.
\<close>

definition accepted ::
  "'a fixtures_scheme \<Rightarrow> testGenerator \<Rightarrow> TestInstance list list \<Rightarrow> TestInstance list list" where
  "accepted F g tests = tests @ [[acceptBlock F g (tipName g) (tip g) True False]]"

definition acceptedWithAdminKeys ::
  "'a fixtures_scheme \<Rightarrow> testGenerator \<Rightarrow> KeySetType \<Rightarrow> PublicKey list option \<Rightarrow>
    TestInstance list list \<Rightarrow> TestInstance list list" where
  "acceptedWithAdminKeys F g keySetType adminKeys tests =
     (let adminKeySets =
            (case adminKeys of
               None \<Rightarrow> RegressionAdminKeySets F
             | Some keys \<Rightarrow>
                 (RegressionAdminKeySets F)
                   (keySetType := RegressionAdminKeySets F keySetType @ keys))
      in tests @ [[acceptBlockwithAdminKeys F g (tipName g) (tip g) True False adminKeySets]])"

definition acceptedWithWspKey ::
  "'a fixtures_scheme \<Rightarrow> testGenerator \<Rightarrow> PublicKey \<Rightarrow> KeyID \<Rightarrow>
    TestInstance list list \<Rightarrow> TestInstance list list" where
  "acceptedWithWspKey F g adminKey keyID tests =
     tests @ [[acceptBlockwithWspKeys F g (tipName g) (tip g) True False adminKey keyID]]"

definition acceptedToSideChainWithExpectedTip ::
  "'a fixtures_scheme \<Rightarrow> testGenerator \<Rightarrow> string \<Rightarrow>
    TestInstance list list \<Rightarrow> TestInstance list list" where
  "acceptedToSideChainWithExpectedTip F g tipName' tests =
     tests @ [[acceptBlock F g (tipName g) (tip g) False False,
               expectTipBlock g tipName' (blocksByName g tipName')]]"

definition rejected ::
  "testGenerator \<Rightarrow> ErrorCode \<Rightarrow> TestInstance list list \<Rightarrow> TestInstance list list" where
  "rejected g code tests = tests @ [[rejectBlock g (tipName g) (tip g) code]]"

text \<open>
  The first loop: \<open>coinbaseMaturity\<close> blocks \<open>bm0\<close>, \<open>bm1\<close>, ..., each saved as a
  spendable coinbase and accepted. The second: the saved outputs are collected into
  \<open>outs\<close>. The loop variable is a \<open>uint16\<close> below \<open>coinbaseMaturity\<close>; it is a number
  here.
\<close>

function matureLoop ::
  "'a fixtures_scheme \<Rightarrow> nat \<Rightarrow> nat \<Rightarrow> testGenerator \<times> TestInstance list \<Rightarrow>
    (testGenerator \<times> TestInstance list) result" where
  "matureLoop F coinbaseMaturity i (g, testInstances) =
     (if i < coinbaseMaturity then
        (let blockName = ''bm'' @ decimal i in
         case nextBlockStmt F blockName None [] g of
           None \<Rightarrow> None
         | Some (Inl p) \<Rightarrow> Some (Inl p)
         | Some (Inr g1) \<Rightarrow>
             (case saveTipCoinbaseOut F g1 of
                Inl p \<Rightarrow> Some (Inl p)
              | Inr g2 \<Rightarrow>
                  matureLoop F coinbaseMaturity (Suc i)
                    (g2, testInstances @ [acceptBlock F g2 (tipName g2) (tip g2) True False])))
      else Some (Inr (g, testInstances)))"
  by pat_completeness auto
termination
  by (relation "measure (\<lambda>(F, coinbaseMaturity, i, s). coinbaseMaturity - i)") auto

function collectLoop ::
  "nat \<Rightarrow> nat \<Rightarrow> testGenerator \<times> spendableOut list \<Rightarrow>
    (testGenerator \<times> spendableOut list) result" where
  "collectLoop coinbaseMaturity i (g, outs) =
     (if i < coinbaseMaturity then
        (case oldestCoinbaseOut g of
           Inl p \<Rightarrow> Some (Inl p)
         | Inr (op, g1) \<Rightarrow> collectLoop coinbaseMaturity (Suc i) (g1, outs @ [op]))
      else Some (Inr (g, outs)))"
  by pat_completeness auto
termination
  by (relation "measure (\<lambda>(coinbaseMaturity, i, s). coinbaseMaturity - i)") auto

text \<open>
  The statements of \<open>Generate\<close> after the loops work on the generator and on \<open>tests\<close>;
  the pair of the two is threaded through them.
\<close>

type_synonym run = "testGenerator \<times> TestInstance list list"

definition nextBlockRun ::
  "'a chain_scheme \<Rightarrow> string \<Rightarrow> spendableOut option \<Rightarrow> (MsgBlock \<Rightarrow> MsgBlock) list \<Rightarrow>
    run \<Rightarrow> run result" where
  "nextBlockRun E blockName spend mungers s =
     andThen (nextBlockStmt E blockName spend mungers (fst s)) (\<lambda>g'. Some (Inr (g', snd s)))"

definition setTipRun :: "string \<Rightarrow> run \<Rightarrow> run" where
  "setTipRun blockName s = (setTip (fst s) blockName, snd s)"

definition acceptedRun :: "'a fixtures_scheme \<Rightarrow> run \<Rightarrow> run" where
  "acceptedRun F s = (fst s, accepted F (fst s) (snd s))"

definition acceptedWithAdminKeysRun ::
  "'a fixtures_scheme \<Rightarrow> KeySetType \<Rightarrow> PublicKey list option \<Rightarrow> run \<Rightarrow> run" where
  "acceptedWithAdminKeysRun F keySetType adminKeys s =
     (fst s, acceptedWithAdminKeys F (fst s) keySetType adminKeys (snd s))"

definition acceptedWithWspKeyRun :: "'a fixtures_scheme \<Rightarrow> PublicKey \<Rightarrow> KeyID \<Rightarrow> run \<Rightarrow> run" where
  "acceptedWithWspKeyRun F adminKey keyID s =
     (fst s, acceptedWithWspKey F (fst s) adminKey keyID (snd s))"

definition acceptedToSideChainWithExpectedTipRun ::
  "'a fixtures_scheme \<Rightarrow> string \<Rightarrow> run \<Rightarrow> run" where
  "acceptedToSideChainWithExpectedTipRun F tipName' s =
     (fst s, acceptedToSideChainWithExpectedTip F (fst s) tipName' (snd s))"

definition rejectedRun :: "ErrorCode \<Rightarrow> run \<Rightarrow> run" where
  "rejectedRun code s = (fst s, rejected (fst s) code (snd s))"

text \<open>
  A slice built by \<open>append\<close> from the nil slice: nil while nothing has been appended.
\<close>

definition sliceOf :: "'a list \<Rightarrow> 'a list option" where
  "sliceOf xs = (if xs = [] then None else Some xs)"

text \<open>
  The body of \<open>Generate\<close>, statement by statement. It returns the two results of the
  function, \<open>tests\<close> and \<open>err\<close> (\<open>None\<close> is \<open>nil\<close>), or panics.
\<close>

definition generateBody ::
  "'a fixtures_scheme \<Rightarrow> (TestInstance list list option \<times> error option) result" where
  "generateBody F =
     (case makeTestGenerator F (RegressionNetParams F) of
        Inl err \<Rightarrow> Some (Inr (None, Some err))
      | Inr g \<Rightarrow>
     andThen (returned (makeSpendableOut F (tip g) 0 0)) (\<lambda>rootOut.
     andThen (returned (makeSpendableOut F (tip g) 0 1)) (\<lambda>provisionOut.
     andThen (returned (makeSpendableOut F (tip g) 0 2)) (\<lambda>issueOut.
     let outs = [rootOut, provisionOut, issueOut];
         coinbaseMaturity = unat (CoinbaseMaturity (params g)) in
     andThen (matureLoop F coinbaseMaturity 0 (g, [])) (\<lambda>(g, testInstances).
     let tests = [] @ [testInstances] in
     andThen (collectLoop coinbaseMaturity 0 (g, outs)) (\<lambda>(g, outs).
     let s = (g, tests) in
     andThen (outAt outs 3) (\<lambda>out.
     andThen (nextBlockRun F ''b1'' (Some out) [] s) (\<lambda>s.
     let s = acceptedRun F s in
     andThen (outAt outs 4) (\<lambda>out.
     andThen (nextBlockRun F ''b2'' (Some out) [] s) (\<lambda>s.
     let s = acceptedRun F s in
     andThen (outAt outs 0) (\<lambda>out.
     andThen (returned (createAdminTx F out 0 (ISSUINGKEYADD F) (pubKey1 F))) (\<lambda>issueKeyAddTx.
     andThen (nextBlockRun F ''b3'' None [additionalTx issueKeyAddTx] s) (\<lambda>s.
     let s = acceptedWithAdminKeysRun F (IssueKeySet F) (Some [pubKey1 F]) s in
     andThen (returned (makeSpendableOutForTx F issueKeyAddTx 0)) (\<lambda>provisionThreadOut.
     andThen (returned (createAdminTx F provisionThreadOut 0 (ISSUINGKEYADD F) (pubKey2 F)))
       (\<lambda>issueKeyAddTx2.
     andThen (nextBlockRun F ''b4'' None [additionalTx issueKeyAddTx2] s) (\<lambda>s.
     let s = acceptedWithAdminKeysRun F (IssueKeySet F) (Some [pubKey1 F, pubKey2 F]) s in
     andThen (nextBlockRun F ''b5'' None [] s) (\<lambda>s.
     let s = acceptedWithAdminKeysRun F (IssueKeySet F) (Some [pubKey1 F, pubKey2 F]) s in
     andThen (returned (makeSpendableOutForTx F issueKeyAddTx2 0)) (\<lambda>provisionThreadOut.
     andThen (returned (createAdminTx F provisionThreadOut 0 (ISSUINGKEYREVOKE F) (pubKey1 F)))
       (\<lambda>issueKeyRevokeTx1.
     andThen (returned (makeSpendableOutForTx F issueKeyRevokeTx1 0)) (\<lambda>provisionThreadOut.
     andThen (returned (createAdminTx F provisionThreadOut 0 (ISSUINGKEYREVOKE F) (pubKey2 F)))
       (\<lambda>issueKeyRevokeTx2.
     andThen (nextBlockRun F ''b6'' None
                [additionalTx issueKeyRevokeTx1, additionalTx issueKeyRevokeTx2] s) (\<lambda>s.
     let s = acceptedRun F s;
         keyId = KeyIDFromAddressBuffer F [0, 0, 1, 0] in
     andThen (outAt outs 6) (\<lambda>out.
     andThen (returned (createWspAdminTx F out (WSPKEYADD F) (pubKey1 F) keyId)) (\<lambda>wspKeyIdAddTx.
     andThen (nextBlockRun F ''b7'' None [additionalTx wspKeyIdAddTx] s) (\<lambda>s.
     let s = acceptedWithWspKeyRun F (pubKey1 F) keyId s in
     andThen (outAt outs 7) (\<lambda>out.
     andThen (nextBlockRun F ''b8'' (Some out) [] s) (\<lambda>s.
     let s = acceptedRun F s in
     andThen (outAt outs 8) (\<lambda>out.
     andThen (nextBlockRun F ''b9'' (Some out) [] s) (\<lambda>s.
     let s = acceptedRun F s in
     andThen (returned (makeSpendableOutForTx F issueKeyRevokeTx2 0)) (\<lambda>provisionThreadOut.
     andThen (returned (createAdminTx F provisionThreadOut 0 (ISSUINGKEYADD F) (pubKey1 F)))
       (\<lambda>adminKeyAddTx.
     andThen (nextBlockRun F ''b10'' None [additionalTx adminKeyAddTx] s) (\<lambda>s.
     let s = acceptedWithAdminKeysRun F (IssueKeySet F) (Some [pubKey1 F]) s;
         s = setTipRun ''b9'' s in
     andThen (outAt outs 9) (\<lambda>out.
     andThen (nextBlockRun F ''b11'' (Some out) [] s) (\<lambda>s.
     let s = acceptedToSideChainWithExpectedTipRun F ''b10'' s in
     andThen (outAt outs 10) (\<lambda>out.
     andThen (nextBlockRun F ''b12'' (Some out) [] s) (\<lambda>s.
     let s = acceptedRun F s;
         s = setTipRun ''b10'' s in
     andThen (outAt outs 10) (\<lambda>out.
     andThen (nextBlockRun F ''b13'' (Some out) [] s) (\<lambda>s.
     let s = acceptedToSideChainWithExpectedTipRun F ''b12'' s in
     andThen (outAt outs 11) (\<lambda>out.
     andThen (nextBlockRun F ''b14'' (Some out) [] s) (\<lambda>s.
     let s = acceptedWithAdminKeysRun F (IssueKeySet F) (Some [pubKey1 F]) s;
         s = setTipRun ''b13'' s in
     andThen (outAt outs 10) (\<lambda>out.
     andThen (nextBlockRun F ''b15'' (Some out) [] s) (\<lambda>s.
     let s = acceptedToSideChainWithExpectedTipRun F ''b14'' s in
     andThen (outAt outs 12) (\<lambda>out.
     andThen (nextBlockRun F ''b16'' (Some out) [] s) (\<lambda>s.
     let s = rejectedRun (ErrMissingTx F) s in
     Some (Inr (sliceOf (snd s), None))
     ))))))))))))))))))))))))))))))))))))))))))))"

text \<open>
  \<open>Generate\<close>: the body under the deferred function. When the body panics,
  \<open>recover\<close> gives the panic's value, \<open>tests\<close> is set to nil and \<open>err\<close> to the error made
  from the value; otherwise the body's two results are returned.
\<close>

definition Generate ::
  "'a fixtures_scheme \<Rightarrow> bool \<Rightarrow> (TestInstance list list option \<times> error option) option" where
  "Generate F includeLargeReorg =
     (case generateBody F of
        None \<Rightarrow> None
      | Some (Inr (tests, err)) \<Rightarrow> Some (tests, err)
      | Some (Inl r) \<Rightarrow>
          Some (None,
            Some (case r of
                    PanicString rt \<Rightarrow> Error rt
                  | PanicError rt \<Rightarrow> rt
                  | PanicOther \<Rightarrow> Error ''Unknown panic'')))"

subsection \<open>The wording of the claim on Generate\<close>

text \<open>
  A call returns. Every worker of \<open>solveBlock\<close> reports: there is at least one
  processor, and the order in which results arrive names each worker once. A pair of
  results is all or nothing: tests that are not nil with a nil error, or nil tests with
  an error. A run of the body ends well when it returns such a pair, or panics.
\<close>

definition returns :: "'a result \<Rightarrow> bool" where
  "returns m = (m \<noteq> None)"

definition every_worker_reports :: "'a chain_scheme \<Rightarrow> bool" where
  "every_worker_reports E =
     (NumCPU E \<noteq> 0 \<and>
      (\<forall>header. distinct (arrival E header) \<and>
                set (arrival E header) = {..< unat (NumCPU E)}))"

definition all_or_nothing :: "TestInstance list list option \<times> error option \<Rightarrow> bool" where
  "all_or_nothing r =
     ((\<exists>tests. tests \<noteq> [] \<and> r = (Some tests, None)) \<or> (\<exists>err. r = (None, Some err)))"

definition ends_well :: "(TestInstance list list option \<times> error option) result \<Rightarrow> bool" where
  "ends_well m =
     (case m of
        None \<Rightarrow> False
      | Some (Inl p) \<Rightarrow> True
      | Some (Inr r) \<Rightarrow> all_or_nothing r)"

text \<open>
  Concrete fixtures on the concrete chain; the genesis block of \<open>sample_params\<close> holds
  no transaction.
\<close>

definition sample_fixtures :: fixtures where
  "sample_fixtures =
     \<lparr>BlockHash = (\<lambda>h. ucast ((Nonce h + 5) mod 8)),
      TxHash = (\<lambda>tx. of_nat (length (TxOut tx))),
      Sign = (\<lambda>h. h),
      SerializeSize = (\<lambda>b. 80 + length (Transactions b)),
      BuildMerkleRoot = (\<lambda>txns. of_nat (length txns)),
      CompactToBig = uint,
      HashToBig = uint,
      NumCPU = 2,
      arrival = (\<lambda>h. [0, 1]),
      createCoinbaseTx = (\<lambda>g height. \<lparr>TxIn = [], TxOut = [\<lparr>Value = 50, PkScript = []\<rparr>]\<rparr>),
      createSpendTx = (\<lambda>s fee.
        \<lparr>TxIn = [\<lparr>PreviousOutPoint = prevOut s, SignatureScript = [], Sequence = 0xFFFFFFFF\<rparr>],
         TxOut = [\<lparr>Value = 0, PkScript = []\<rparr>]\<rparr>),
      now = 0,
      RegressionNetParams = sample_params,
      RegressionAdminKeySets = (\<lambda>keySetType. []),
      RegressionWspKeyIdMap = Map.empty,
      pubKey1 = [0x02, 0x01],
      pubKey2 = [0x02, 0x02],
      createAdminTx = (\<lambda>spend threadID op pubKey.
        Inr \<lparr>TxIn = [\<lparr>PreviousOutPoint = prevOut spend, SignatureScript = [],
                      Sequence = 0xFFFFFFFF\<rparr>],
             TxOut = [\<lparr>Value = 0, PkScript = [0x51, 0xbb]\<rparr>,
                      \<lparr>Value = 0, PkScript = 0x6a # 0x22 # op # pubKey\<rparr>]\<rparr>),
      createWspAdminTx = (\<lambda>spend op pubKey keyID.
        Inr \<lparr>TxIn = [\<lparr>PreviousOutPoint = prevOut spend, SignatureScript = [],
                      Sequence = 0xFFFFFFFF\<rparr>],
             TxOut = [\<lparr>Value = 0, PkScript = [0x51, 0xbb]\<rparr>,
                      \<lparr>Value = 0, PkScript = 0x6a # 0x26 # op # pubKey\<rparr>]\<rparr>),
      KeyIDFromAddressBuffer = (\<lambda>bs. 65536),
      IssueKeySet = 1,
      ErrMissingTx = 1,
      ISSUINGKEYADD = 0x03,
      ISSUINGKEYREVOKE = 0x04,
      WSPKEYADD = 0x13\<rparr>"

section \<open>Properties of the script classifier\<close>

subsection \<open>Evaluating the concrete environment\<close>

lemma sample_env_simps:
  "OP_RETURN sample_env = 0x6a" "OP_PUSHDATA4 sample_env = 0x4e"
  "OP_2 sample_env = 0x52" "OP_3 sample_env = 0x53"
  "OP_DATA_34 sample_env = 0x22" "OP_DATA_38 sample_env = 0x26"
  "OP_CHECKSAFEMULTISIG sample_env = 0xba" "OP_CHECKTHREAD sample_env = 0xbb"
  "OP_PROVISIONINGKEYADD sample_env = 0x01" "OP_PROVISIONINGKEYREVOKE sample_env = 0x02"
  "OP_ISSUINGKEYADD sample_env = 0x03" "OP_ISSUINGKEYREVOKE sample_env = 0x04"
  "OP_VALIDATEKEYADD sample_env = 0x11" "OP_VALIDATEKEYREVOKE sample_env = 0x12"
  "OP_WSPKEYADD sample_env = 0x13" "OP_WSPKEYREVOKE sample_env = 0x14"
  "isSmallInt sample_env = sample_isSmallInt" "asSmallInt sample_env = sample_asSmallInt"
  "isUint32 sample_env = sample_isUint32" "asInt32 sample_env = sample_asInt32"
  "ParseScript sample_env = sample_ParseScript"
  "ExtractThreadID sample_env = sample_ExtractThreadID"
  "ParsePubKey sample_env = (\<lambda>key. length key = 33)"
  by (simp_all add: sample_env_def)

lemma op_only_simps: "opvalue (opcode (op_only b)) = b" "data (op_only b) = []"
  by (simp_all add: op_only_def)

lemma push_data_simps:
  "opvalue (opcode (push_data [a, b, c, d])) = 0x04" "data (push_data bs) = bs"
  by (simp_all add: push_data_def)

lemma sample_asInt32_push:
  "sample_asInt32 (push_data [a, b, c, d]) =
     Inr (ucast a + 256 * ucast b + 65536 * ucast c + 16777216 * ucast d)"
  by (simp add: sample_asInt32_def push_data_def)

lemma admin_script_simps:
  "length (admin_script op n) = 2"
  "opvalue (opcode (admin_script op n ! 0)) = 0x6a"
  "opvalue (opcode (admin_script op n ! 1)) = of_nat n"
  "data (admin_script op n ! 1) = op # replicate (n - 1) 0x02"
  by (simp_all add: admin_script_def op_only_def)

text \<open>The thread script of the Provision thread, \<open>OP_1 OP_CHECKTHREAD\<close>.\<close>

lemma thread_script_class:
  "typeOfScript sample_env [op_only 0x51, op_only 0xbb] = AztecAdminTy"
  by (simp add: typeOfScript_def isNullData_def isAztec_def isGeneralAztec_def isAztecAdmin_def
      sample_env_simps op_only_simps sample_asSmallInt_def RootThread_def IssueThread_def)

lemma thread_script_parse:
  "sample_ParseScript [0x51, 0xbb] = Inr [op_only 0x51, op_only 0xbb]"
  by (simp add: op_only_def)

lemma pushdata_script_parse:
  "sample_ParseScript [0x4c] = Inl (Error ''length-prefixed push'')"
  by simp

lemma keyLoop_unlisted:
  "keyLoop sample_env
     [op_only 0x61, push_data [0x01, 0x00, 0x00, 0x00], push_data [0x02, 0x00, 0x00, 0x00],
      push_data [0x03, 0x00, 0x00, 0x00]] 0 0 Map.empty = Some (3, 0)"
  by (simp add: sample_env_simps op_only_simps push_data_simps sample_isUint32_def
      sample_asInt32_push)

subsection \<open>GeneralAztecTy\<close>

text \<open>
  C1 (the code falls short of it). The claim: a sequence that is neither NullData nor the
  2-of-3 form is classified GeneralAztecTy exactly when, among other conditions, every
  operation between the first and the second-to-last is a 20-byte hash push or a KeyID
  push. The loop of \<open>isGeneralAztec\<close> has no final \<open>else\<close>: an operation that is
  neither is passed over, although the comment on the second branch reads that
  otherwise it should look like a KeyID, and although \<open>nKeys\<close> is compared with the
  number of all operations in between. The script
  \<open>OP_3 OP_NOP <1> <2> <3> OP_4 OP_CHECKSAFEMULTISIG\<close> is classified GeneralAztecTy;
  its second operation carries no data and is no KeyID push.
\<close>

theorem isGeneralAztec_passes_over_other_operations:
  "typeOfScript sample_env unlisted_operand_script = GeneralAztecTy \<and>
   length (data (unlisted_operand_script ! 1)) \<noteq> 20 \<and>
   \<not> isUint32 sample_env (opcode (unlisted_operand_script ! 1))"
  by (simp add: typeOfScript_def isNullData_def isAztec_def isGeneralAztec_def
      unlisted_operand_script_def keyLoop_unlisted
      sample_env_simps op_only_simps sample_isSmallInt_def sample_asSmallInt_def
      sample_isUint32_def del: keyLoop.simps)

subsection \<open>AztecAdminTy\<close>

text \<open>
  C2 (amended). The claim gives the AdminOp class the shape of an administrative
  operation script: a return-marker and one push of 34 or 38 bytes. \<open>isAztecAdmin\<close>
  recognises the thread script instead. Amended: a sequence that is none of NullDataTy,
  AztecTy and GeneralAztecTy is classified AztecAdminTy exactly when it has exactly two
  operations, the second is \<open>OP_CHECKTHREAD\<close>, and the first, read as a small integer
  by \<open>asSmallInt\<close>, is a thread ID from 0 (Root) to 2 (Issue).
\<close>

theorem typeOfScript_AztecAdminTy_iff:
  assumes "typeOfScript E pops \<noteq> NullDataTy"
    and "typeOfScript E pops \<noteq> AztecTy"
    and "typeOfScript E pops \<noteq> GeneralAztecTy"
  shows "typeOfScript E pops = AztecAdminTy \<longleftrightarrow>
     (length pops = 2 \<and>
      opvalue (opcode (pops ! 1)) = OP_CHECKTHREAD E \<and>
      0 \<le> asSmallInt E (opcode (pops ! 0)) \<and> asSmallInt E (opcode (pops ! 0)) \<le> 2)"
  using assms
  by (auto simp add: typeOfScript_def isAztecAdmin_def RootThread_def IssueThread_def Let_def
      split: if_splits)

theorem typeOfScript_AztecAdminTy_iff_witness:
  "typeOfScript sample_env [op_only 0x51, op_only 0xbb] = AztecAdminTy \<and>
   length [op_only 0x51, op_only 0xbb] = 2 \<and>
   opvalue (opcode ([op_only 0x51, op_only 0xbb] ! 1)) = OP_CHECKTHREAD sample_env \<and>
   asSmallInt sample_env (opcode ([op_only 0x51, op_only 0xbb] ! 0)) = 1"
  using typeOfScript_AztecAdminTy_iff [of sample_env "[op_only 0x51, op_only 0xbb]"]
    thread_script_class
  by (simp add: sample_env_simps op_only_simps sample_asSmallInt_def)

text \<open>
  The claim as stated fails at the thread script \<open>OP_1 OP_CHECKTHREAD\<close>: it is
  classified AztecAdminTy and does not start with a return-marker.
\<close>

theorem AdminOp_shape_counterexample:
  "\<not> (\<forall>pops. typeOfScript sample_env pops \<noteq> NullDataTy \<longrightarrow>
        typeOfScript sample_env pops \<noteq> AztecTy \<longrightarrow>
        typeOfScript sample_env pops \<noteq> GeneralAztecTy \<longrightarrow>
        (typeOfScript sample_env pops = AztecAdminTy \<longleftrightarrow>
         claimed_AdminOp_shape sample_env pops))"
proof
  assume h: "\<forall>pops. typeOfScript sample_env pops \<noteq> NullDataTy \<longrightarrow>
        typeOfScript sample_env pops \<noteq> AztecTy \<longrightarrow>
        typeOfScript sample_env pops \<noteq> GeneralAztecTy \<longrightarrow>
        (typeOfScript sample_env pops = AztecAdminTy \<longleftrightarrow>
         claimed_AdminOp_shape sample_env pops)"
  have "claimed_AdminOp_shape sample_env [op_only 0x51, op_only 0xbb]"
    using h [rule_format, of "[op_only 0x51, op_only 0xbb]"] thread_script_class by simp
  then show False
    by (simp add: claimed_AdminOp_shape_def sample_env_simps op_only_simps)
qed

subsection \<open>GetScriptClass\<close>

text \<open>
  C6. Classification is a total function of the script: a script that does not parse is
  NonStandardTy; one that parses is classified by the first test that holds, in the
  order \<open>isNullData\<close>, \<open>isAztec\<close>, \<open>isGeneralAztec\<close>, \<open>isAztecAdmin\<close>, and is
  NonStandardTy when none holds. The result is always one of these five classes.
\<close>

theorem GetScriptClass_precedence:
  "(\<forall>err. ParseScript E script = Inl err \<longrightarrow> GetScriptClass E script = NonStandardTy) \<and>
   (\<forall>pops. ParseScript E script = Inr pops \<longrightarrow>
      GetScriptClass E script =
        (if isNullData E pops then NullDataTy
         else if isAztec E pops then AztecTy
         else if isGeneralAztec E pops then GeneralAztecTy
         else if isAztecAdmin E pops then AztecAdminTy
         else NonStandardTy)) \<and>
   GetScriptClass E script \<in> {NonStandardTy, NullDataTy, AztecTy, GeneralAztecTy, AztecAdminTy}"
  by (simp add: GetScriptClass_def typeOfScript_def split: sum.splits)

theorem GetScriptClass_precedence_witness:
  "GetScriptClass sample_env [0x51, 0xbb] = AztecAdminTy \<and>
   GetScriptClass sample_env [0x4c] = NonStandardTy"
  using GetScriptClass_precedence [of sample_env "[0x51, 0xbb]"]
    GetScriptClass_precedence [of sample_env "[0x4c]"]
  by (simp add: sample_env_simps thread_script_parse pushdata_script_parse
      isNullData_def isAztec_def isGeneralAztec_def isAztecAdmin_def
      op_only_simps sample_asSmallInt_def RootThread_def IssueThread_def
      del: sample_ParseScript.simps)

subsection \<open>GetAdminDetails\<close>

text \<open>
  C5 (the code falls short of it). The claim: \<open>GetAdminDetails\<close> fails, with thread -1
  and no outputs, unless the first output is a thread script and the transaction has at
  least one more output. The comment at the head of the function says the same (we
  expect at least one additional), but the guard is \<open>len(TxOut) < 1\<close>: a transaction
  whose only output is a thread script is not refused. The function returns its thread
  ID and an empty, non-nil list of administrative outputs.
\<close>

theorem GetAdminDetails_single_output:
  assumes "TxOut tx = [txOut]"
    and "ParseScript E (PkScript txOut) = Inr pops"
    and "typeOfScript E pops = AztecAdminTy"
    and "ExtractThreadID E pops = Inr threadID"
  shows "GetAdminDetails E tx = (threadID, Some [])"
  using assms by (simp add: GetAdminDetails_def TypeOfScript_def)

theorem GetAdminDetails_single_output_witness:
  "GetAdminDetails sample_env \<lparr>TxIn = [], TxOut = [\<lparr>Value = 0, PkScript = [0x51, 0xbb]\<rparr>]\<rparr>
     = (1, Some [])"
  using GetAdminDetails_single_output
      [of "\<lparr>TxIn = [], TxOut = [\<lparr>Value = 0, PkScript = [0x51, 0xbb]\<rparr>]\<rparr>"
        "\<lparr>Value = 0, PkScript = [0x51, 0xbb]\<rparr>" sample_env "[op_only 0x51, op_only 0xbb]" 1]
    thread_script_class thread_script_parse
  by (simp add: sample_env_simps sample_ExtractThreadID_def sample_asSmallInt_def op_only_simps
      del: sample_ParseScript.simps)

subsection \<open>IsValidAdminOp\<close>

lemma ExtractAdminData_Inr_wsp:
  assumes "ExtractAdminData E pops = Inr (op, keyData)"
  shows "isWspOp E op \<longleftrightarrow> length (data (pops ! 1)) = 38"
    and "data (pops ! 1) ! 0 = op"
  using assms
  by (auto simp add: ExtractAdminData_def Let_def PubKeyBytesLenCompressed_def KeyIDSize_def
      split: if_splits)

lemma IsValidAdminOp_decoded:
  assumes "length pops = 2"
    and "opvalue (opcode (pops ! 0)) = OP_RETURN E"
    and "opvalue (opcode (pops ! 1)) = OP_DATA_34 E \<or> opvalue (opcode (pops ! 1)) = OP_DATA_38 E"
    and "ExtractAdminData E pops = Inr (op, keyData)"
  shows "IsValidAdminOp E pops threadID =
     (if threadID = RootThread then
        op = OP_PROVISIONINGKEYADD E \<or> op = OP_PROVISIONINGKEYREVOKE E \<or>
        op = OP_ISSUINGKEYADD E \<or> op = OP_ISSUINGKEYREVOKE E
      else if threadID = ProvisionThread then
        op = OP_VALIDATEKEYADD E \<or> op = OP_VALIDATEKEYREVOKE E \<or>
        (isWspOp E op \<and> length (data (pops ! 1)) = 38)
      else False)"
proof -
  have len: "1 + PubKeyBytesLenCompressed + KeyIDSize = 38"
    by (simp add: PubKeyBytesLenCompressed_def KeyIDSize_def)
  have guard: "\<not> (opvalue (opcode (pops ! 1)) \<noteq> OP_DATA_34 E \<and>
                  opvalue (opcode (pops ! 1)) \<noteq> OP_DATA_38 E)"
    using assms(3) by blast
  show ?thesis
    unfolding IsValidAdminOp_def len isWspOp_def
    by (simp only: assms(1,2,4) guard if_False if_True simp_thms sum.case prod.case)
      (simp add: IssueThread_def RootThread_def ProvisionThread_def)
qed

lemma IsValidAdminOp_decodes:
  assumes "IsValidAdminOp E pops threadID"
  shows "\<exists>op keyData. ExtractAdminData E pops = Inr (op, keyData)"
proof (cases "ExtractAdminData E pops")
  case (Inl err)
  then have "\<not> IsValidAdminOp E pops threadID"
    by (simp add: IsValidAdminOp_def)
  with assms show ?thesis by simp
next
  case (Inr r)
  then show ?thesis by (cases r) simp
qed

lemma IsValidAdminOp_IssueThread: "\<not> IsValidAdminOp E pops IssueThread"
proof (cases "ExtractAdminData E pops")
  case (Inl err)
  then show ?thesis by (simp add: IsValidAdminOp_def)
next
  case (Inr r)
  then show ?thesis
    by (cases r) (simp add: IsValidAdminOp_def IssueThread_def RootThread_def ProvisionThread_def)
qed

text \<open>
  C3. For a well-formed administrative operation script (two operations, a
  return-marker and an \<open>OP_DATA_34\<close> or \<open>OP_DATA_38\<close> push, whose payload
  \<open>ExtractAdminData\<close> decodes to the opcode \<open>op\<close>) and every thread,
  \<open>IsValidAdminOp\<close> accepts exactly when \<open>op\<close> is legal for the thread: the Provision
  and Issue key operations on Root, the Validate and WSP key operations on Provision,
  none elsewhere. On the Issue thread it rejects every script. \<open>ExtractAdminData\<close> is
  the definition modelled from the spec.
\<close>

theorem IsValidAdminOp_iff_legal:
  "(length pops = 2 \<and> opvalue (opcode (pops ! 0)) = OP_RETURN E \<and>
    (opvalue (opcode (pops ! 1)) = OP_DATA_34 E \<or> opvalue (opcode (pops ! 1)) = OP_DATA_38 E) \<and>
    ExtractAdminData E pops = Inr (op, keyData) \<longrightarrow>
      (IsValidAdminOp E pops threadID \<longleftrightarrow> isLegalForThread E op threadID)) \<and>
   (\<forall>script. \<not> IsValidAdminOp E script IssueThread)"
proof (intro conjI impI allI)
  fix script
  show "\<not> IsValidAdminOp E script IssueThread"
    by (rule IsValidAdminOp_IssueThread)
next
  assume h: "length pops = 2 \<and> opvalue (opcode (pops ! 0)) = OP_RETURN E \<and>
    (opvalue (opcode (pops ! 1)) = OP_DATA_34 E \<or> opvalue (opcode (pops ! 1)) = OP_DATA_38 E) \<and>
    ExtractAdminData E pops = Inr (op, keyData)"
  then have x: "ExtractAdminData E pops = Inr (op, keyData)" by blast
  have wsp: "isWspOp E op \<longleftrightarrow> length (data (pops ! 1)) = 38"
    by (rule ExtractAdminData_Inr_wsp(1) [OF x])
  have "IsValidAdminOp E pops threadID =
     (if threadID = RootThread then
        op = OP_PROVISIONINGKEYADD E \<or> op = OP_PROVISIONINGKEYREVOKE E \<or>
        op = OP_ISSUINGKEYADD E \<or> op = OP_ISSUINGKEYREVOKE E
      else if threadID = ProvisionThread then
        op = OP_VALIDATEKEYADD E \<or> op = OP_VALIDATEKEYREVOKE E \<or>
        (isWspOp E op \<and> length (data (pops ! 1)) = 38)
      else False)"
    using h by (intro IsValidAdminOp_decoded) blast+
  also have "\<dots> = isLegalForThread E op threadID"
    unfolding isLegalForThread_def wsp [symmetric] by (simp add: isWspOp_def)
  finally show "IsValidAdminOp E pops threadID \<longleftrightarrow> isLegalForThread E op threadID" .
qed

lemma ExtractAdminData_sample_34:
  "ExtractAdminData sample_env (admin_script 0x03 34) = Inr (0x03, replicate 33 0x02)"
  unfolding ExtractAdminData_def admin_script_simps Let_def
  by (simp add: sample_env_simps isAdminOp_def
      isWspOp_def PubKeyBytesLenCompressed_def KeyIDSize_def)

theorem IsValidAdminOp_iff_legal_witness:
  "IsValidAdminOp sample_env (admin_script 0x03 34) RootThread \<and>
   isLegalForThread sample_env 0x03 RootThread \<and>
   \<not> IsValidAdminOp sample_env (admin_script 0x03 34) IssueThread"
proof -
  have h: "length (admin_script 0x03 34) = 2 \<and>
      opvalue (opcode (admin_script 0x03 34 ! 0)) = OP_RETURN sample_env \<and>
      (opvalue (opcode (admin_script 0x03 34 ! 1)) = OP_DATA_34 sample_env \<or>
       opvalue (opcode (admin_script 0x03 34 ! 1)) = OP_DATA_38 sample_env) \<and>
      ExtractAdminData sample_env (admin_script 0x03 34) = Inr (0x03, replicate 33 0x02)"
    unfolding admin_script_simps ExtractAdminData_sample_34 by (simp add: sample_env_simps)
  have l: "isLegalForThread sample_env 0x03 RootThread"
    by (simp add: isLegalForThread_def sample_env_simps)
  from IsValidAdminOp_iff_legal
      [of "admin_script 0x03 34" sample_env "0x03" "replicate 33 0x02" RootThread]
  show ?thesis using h l by blast
qed

text \<open>
  C4. For every script and every thread, \<open>IsValidAdminOp\<close> rejects a payload whose
  opcode byte is a WSP opcode and whose length is not 38, and a payload whose opcode
  byte is no WSP opcode and whose length is 38. The first half is also the length test
  of \<open>IsValidAdminOp\<close> itself; the second rests on \<open>ExtractAdminData\<close>, the definition
  modelled from the spec.
\<close>

theorem IsValidAdminOp_length_mismatch:
  "(isWspOp E (data (pops ! 1) ! 0) \<and> length (data (pops ! 1)) \<noteq> 38 \<longrightarrow>
      \<not> IsValidAdminOp E pops threadID) \<and>
   (\<not> isWspOp E (data (pops ! 1) ! 0) \<and> length (data (pops ! 1)) = 38 \<longrightarrow>
      \<not> IsValidAdminOp E pops threadID)"
proof (cases "IsValidAdminOp E pops threadID")
  case False
  then show ?thesis by blast
next
  case True
  then obtain op keyData where x: "ExtractAdminData E pops = Inr (op, keyData)"
    using IsValidAdminOp_decodes by blast
  have "isWspOp E (data (pops ! 1) ! 0) \<longleftrightarrow> length (data (pops ! 1)) = 38"
    using ExtractAdminData_Inr_wsp [OF x] by simp
  then show ?thesis by blast
qed

theorem IsValidAdminOp_length_mismatch_witness:
  "\<not> IsValidAdminOp sample_env (admin_script 0x13 34) ProvisionThread \<and>
   \<not> IsValidAdminOp sample_env (admin_script 0x03 38) RootThread"
proof -
  have a: "isWspOp sample_env (data (admin_script 0x13 34 ! 1) ! 0) \<and>
           length (data (admin_script 0x13 34 ! 1)) \<noteq> 38"
    unfolding admin_script_simps by (simp add: isWspOp_def sample_env_simps)
  have b: "\<not> isWspOp sample_env (data (admin_script 0x03 38 ! 1) ! 0) \<and>
           length (data (admin_script 0x03 38 ! 1)) = 38"
    unfolding admin_script_simps by (simp add: isWspOp_def sample_env_simps)
  from IsValidAdminOp_length_mismatch [of sample_env "admin_script 0x13 34" ProvisionThread]
    IsValidAdminOp_length_mismatch [of sample_env "admin_script 0x03 38" RootThread]
  show ?thesis using a b by blast
qed

subsection \<open>The general form, where every operand is listed\<close>

lemma keyLoop_Some_iff:
  assumes "\<forall>p \<in> set xs. isHashPush p \<or> isUint32 E (opcode p)" and "0 \<le> k"
  shows "keyLoop E xs k h seen = Some (k', h') \<longleftrightarrow>
     ((\<forall>p \<in> set xs. \<not> isHashPush p \<longrightarrow> decodesKeyID E p) \<and>
      distinct (map (keyIDOf E) (filter (\<lambda>p. \<not> isHashPush p) xs)) \<and>
      (\<forall>p \<in> set xs. \<not> isHashPush p \<longrightarrow> seen (keyIDOf E p) = None) \<and>
      (0 < k \<longrightarrow> filter isHashPush xs = []) \<and>
      xs = filter isHashPush xs @ filter (\<lambda>p. \<not> isHashPush p) xs \<and>
      k' = k + int (length (filter (\<lambda>p. \<not> isHashPush p) xs)) \<and>
      h' = h + int (length (filter isHashPush xs)))"
  using assms
proof (induction xs arbitrary: k h seen)
  case Nil
  then show ?case by auto
next
  case (Cons p xs)
  show ?case
  proof (cases "isHashPush p")
    case True
    have "(p # xs = p # filter isHashPush xs @ filter (\<lambda>p. \<not> isHashPush p) xs) \<longleftrightarrow>
          (xs = filter isHashPush xs @ filter (\<lambda>p. \<not> isHashPush p) xs)" by simp
    then show ?thesis
      using True Cons.IH [of k "h + 1" seen] Cons.prems
      by (auto simp add: isHashPush_def Let_def)
  next
    case False
    with Cons.prems have u: "isUint32 E (opcode p)" by simp
    have nh: "length (data p) \<noteq> 20" using False by (simp add: isHashPush_def)
    show ?thesis
    proof (cases "asInt32 E p")
      case (Inl err)
      then show ?thesis using False u nh by (auto simp add: decodesKeyID_def)
    next
      case (Inr v)
      have kv: "keyIDOf E p = v" "decodesKeyID E p" using Inr by (simp_all add: keyIDOf_def decodesKeyID_def)
      show ?thesis
      proof (cases "seen v = None")
        case s: False
        then show ?thesis using False u nh Inr kv by auto
      next
        case s: True
        have k1: "0 \<le> k + 1" "0 < k + 1" using Cons.prems by simp_all
        have p1: "\<forall>p \<in> set xs. isHashPush p \<or> isUint32 E (opcode p)"
          using Cons.prems by simp
        note ih = Cons.IH [OF p1 k1(1), of h "seen(v \<mapsto> True)"]
        have step: "keyLoop E (p # xs) k h seen = keyLoop E xs (k + 1) h (seen(v \<mapsto> True))"
          using nh u Inr s by simp
        have order: "(p # xs = filter isHashPush xs @ p # filter (\<lambda>p. \<not> isHashPush p) xs) \<longleftrightarrow>
            (filter isHashPush xs = [] \<and> xs = filter (\<lambda>p. \<not> isHashPush p) xs)"
        proof (cases "filter isHashPush xs")
          case Nil
          then show ?thesis by simp
        next
          case (Cons q qs)
          then have "q \<in> set (filter isHashPush xs)" by simp
          then have "isHashPush q" by simp
          with False have "p \<noteq> q" by auto
          with Cons show ?thesis by simp
        qed
        show ?thesis
          unfolding step ih using False kv s order Cons.prems(2)
          by (auto simp add: image_iff)
      qed
    qed
  qed
qed

lemma keyLoop_operands:
  assumes "\<forall>p \<in> set xs. isHashPush p \<or> isUint32 E (opcode p)"
  shows "(case keyLoop E xs 0 0 Map.empty of
            None \<Rightarrow> False
          | Some (nKeyIDs, nKeyHashes) \<Rightarrow>
              (if nKeyHashes \<ge> nSigs then False
               else if nKeyIDs < nSigs then False
               else True)) \<longleftrightarrow>
     ((\<forall>p \<in> set xs. isHashPush p \<or> isKeyIDPush E p) \<and>
      xs = filter isHashPush xs @ filter (\<lambda>p. \<not> isHashPush p) xs \<and>
      distinct (map (keyIDOf E) (filter (\<lambda>p. \<not> isHashPush p) xs)) \<and>
      int (length (filter isHashPush xs)) < nSigs \<and>
      nSigs \<le> int (length (filter (\<lambda>p. \<not> isHashPush p) xs)))"
proof -
  have keyid: "(\<forall>p \<in> set xs. isHashPush p \<or> isKeyIDPush E p) \<longleftrightarrow>
      (\<forall>p \<in> set xs. \<not> isHashPush p \<longrightarrow> decodesKeyID E p)"
    using assms by (auto simp add: isKeyIDPush_def)
  note iff = keyLoop_Some_iff [OF assms, of 0 0 Map.empty, simplified]
  show ?thesis
  proof (cases "keyLoop E xs 0 0 Map.empty")
    case None
    then have "\<not> ((\<forall>p \<in> set xs. \<not> isHashPush p \<longrightarrow> decodesKeyID E p) \<and>
        distinct (map (keyIDOf E) (filter (\<lambda>p. \<not> isHashPush p) xs)) \<and>
        xs = filter isHashPush xs @ filter (\<lambda>p. \<not> isHashPush p) xs)"
      using iff by auto
    with None show ?thesis unfolding keyid by auto
  next
    case (Some r)
    obtain k' h' where r: "r = (k', h')" by (cases r)
    from Some r iff [of k' h'] show ?thesis unfolding keyid by auto
  qed
qed

text \<open>
  X1. On the scripts whose operands are all 20-byte pushes or operations that satisfy
  \<open>isUint32\<close>, \<open>isGeneralAztec\<close> holds exactly when the conditions of the spec do.
  (C1 fails only on scripts with an operand of another kind.)
\<close>

theorem isGeneralAztec_on_listed_operands:
  assumes "\<forall>p \<in> set (operands pops). isHashPush p \<or> isUint32 E (opcode p)"
  shows "isGeneralAztec E pops \<longleftrightarrow> claimed_GeneralAdminAuth E pops"
proof (cases "6 \<le> length pops")
  case False
  then show ?thesis
    by (simp add: isGeneralAztec_def claimed_GeneralAdminAuth_def)
next
  case True
  have len: "int (length (operands pops)) = int (length pops) - 2 - 1"
    using True by (simp add: operands_def)
  show ?thesis
    unfolding isGeneralAztec_def claimed_GeneralAdminAuth_def Let_def
      keyLoop_operands [OF assms [unfolded operands_def], folded operands_def]
      operands_def [symmetric] len
    using True by auto
qed

lemma two_of_three_operands:
  "operands two_of_three_script =
     [push_data (replicate 20 0xab),
      push_data [0x01, 0x00, 0x00, 0x00], push_data [0x02, 0x00, 0x00, 0x00]]"
  by (simp add: operands_def two_of_three_script_def)

lemma keyLoop_two_of_three:
  "keyLoop sample_env
     [push_data (replicate 20 0xab),
      push_data [0x01, 0x00, 0x00, 0x00], push_data [0x02, 0x00, 0x00, 0x00]] 0 0 Map.empty
   = Some (2, 1)"
  by (simp add: sample_env_simps push_data_simps sample_isUint32_def sample_asInt32_push)

theorem isGeneralAztec_on_listed_operands_witness:
  "isGeneralAztec sample_env two_of_three_script \<and>
   claimed_GeneralAdminAuth sample_env two_of_three_script"
proof -
  have h: "\<forall>p \<in> set (operands two_of_three_script).
      isHashPush p \<or> isUint32 sample_env (opcode p)"
    unfolding two_of_three_operands
    by (simp add: isHashPush_def push_data_simps sample_env_simps sample_isUint32_def)
  have g: "isGeneralAztec sample_env two_of_three_script"
    by (simp add: isGeneralAztec_def two_of_three_script_def keyLoop_two_of_three
        sample_env_simps op_only_simps sample_isSmallInt_def sample_asSmallInt_def
        del: keyLoop.simps)
  from isGeneralAztec_on_listed_operands [OF h] g show ?thesis by blast
qed

subsection \<open>The results of GetAdminDetails\<close>

lemma parseOutputs_Inr_iff:
  "parseOutputs E outs = Inr ps \<longleftrightarrow>
     map (\<lambda>out. ParseScript E (PkScript out)) outs = map Inr ps"
proof (induction outs arbitrary: ps)
  case Nil
  then show ?case by auto
next
  case (Cons out outs)
  show ?case
  proof (cases "ParseScript E (PkScript out)")
    case (Inl err)
    then show ?thesis by (cases ps) auto
  next
    case p: (Inr pops)
    show ?thesis
    proof (cases "parseOutputs E outs")
      case (Inl err)
      with Cons.IH have "\<And>qs. map (\<lambda>out. ParseScript E (PkScript out)) outs \<noteq> map Inr qs"
        by (metis sum.distinct(1))
      with Inl p show ?thesis by (cases ps) auto
    next
      case (Inr qs)
      with Cons.IH [of qs] have m: "map (\<lambda>out. ParseScript E (PkScript out)) outs = map Inr qs"
        by simp
      have "map Inr qs = map Inr ps' \<longleftrightarrow> qs = ps'" for ps' :: "parsedOpcode list list"
        by (simp add: inj_map_eq_map [OF inj_Inr])
      with Inr p m show ?thesis by (cases ps) auto
    qed
  qed
qed

text \<open>
  X2. \<open>GetAdminDetails\<close> succeeds, with a thread ID and a list of administrative
  outputs, exactly when the transaction has a first output whose script parses and is
  classified AztecAdminTy, \<open>ExtractThreadID\<close> gives the thread ID, and every further
  output parses, the list holding their parsed scripts in order. When it returns no
  list, it returns the thread -1.
\<close>

theorem GetAdminDetails_results:
  "(GetAdminDetails E tx = (threadID, Some adminOutputs) \<longleftrightarrow>
      (\<exists>txOut rest pops.
         TxOut tx = txOut # rest \<and>
         ParseScript E (PkScript txOut) = Inr pops \<and>
         typeOfScript E pops = AztecAdminTy \<and>
         ExtractThreadID E pops = Inr threadID \<and>
         map (\<lambda>out. ParseScript E (PkScript out)) rest = map Inr adminOutputs)) \<and>
   (snd (GetAdminDetails E tx) = None \<longrightarrow> GetAdminDetails E tx = (- 1, None))"
proof (cases "TxOut tx")
  case Nil
  then show ?thesis by (simp add: GetAdminDetails_def)
next
  case (Cons txOut rest)
  then have d: "drop 1 (TxOut tx) = rest" "TxOut tx ! 0 = txOut" "\<not> length (TxOut tx) < 1"
    by simp_all
  show ?thesis
  proof (cases "ParseScript E (PkScript txOut)")
    case (Inl err)
    then show ?thesis unfolding GetAdminDetails_def d using Cons by simp
  next
    case p: (Inr pops)
    show ?thesis
    proof (cases "typeOfScript E pops = AztecAdminTy")
      case False
      then show ?thesis unfolding GetAdminDetails_def d using Cons p
        by (simp add: TypeOfScript_def)
    next
      case ty: True
      show ?thesis
      proof (cases "ExtractThreadID E pops")
        case (Inl err)
        then show ?thesis unfolding GetAdminDetails_def d using Cons p ty
          by (simp add: TypeOfScript_def)
      next
        case t: (Inr t')
        show ?thesis
        proof (cases "parseOutputs E rest")
          case (Inl err)
          then have "\<And>qs. map (\<lambda>out. ParseScript E (PkScript out)) rest \<noteq> map Inr qs"
            using parseOutputs_Inr_iff [of E rest] by (metis sum.distinct(1))
          with Inl show ?thesis unfolding GetAdminDetails_def d using Cons p ty t
            by (simp add: TypeOfScript_def)
        next
          case (Inr qs)
          have "qs = adminOutputs \<longleftrightarrow>
              map (\<lambda>out. ParseScript E (PkScript out)) rest = map Inr adminOutputs"
            using parseOutputs_Inr_iff [of E rest adminOutputs] Inr by auto
          with Inr show ?thesis unfolding GetAdminDetails_def d using Cons p ty t
            by (auto simp add: TypeOfScript_def)
        qed
      qed
    qed
  qed
qed

theorem GetAdminDetails_results_witness:
  "GetAdminDetails sample_env
     \<lparr>TxIn = [], TxOut = [\<lparr>Value = 0, PkScript = [0x51, 0xbb]\<rparr>,
                          \<lparr>Value = 0, PkScript = [0x6a]\<rparr>]\<rparr>
     = (1, Some [[op_only 0x6a]])"
proof -
  have r: "sample_ParseScript [0x6a] = Inr [op_only 0x6a]"
    by (simp add: op_only_def)
  have t: "sample_ExtractThreadID [op_only 0x51, op_only 0xbb] = Inr 1"
    by (simp add: sample_ExtractThreadID_def sample_asSmallInt_def op_only_simps)
  have "\<exists>txOut rest pops.
         TxOut \<lparr>TxIn = [], TxOut = [\<lparr>Value = 0, PkScript = [0x51, 0xbb]\<rparr>,
                          \<lparr>Value = 0, PkScript = [0x6a]\<rparr>]\<rparr> = txOut # rest \<and>
         ParseScript sample_env (PkScript txOut) = Inr pops \<and>
         typeOfScript sample_env pops = AztecAdminTy \<and>
         ExtractThreadID sample_env pops = Inr 1 \<and>
         map (\<lambda>out. ParseScript sample_env (PkScript out)) rest = map Inr [[op_only 0x6a]]"
    apply (rule exI [of _ "\<lparr>Value = 0, PkScript = [0x51, 0xbb]\<rparr>"])
    apply (rule exI [of _ "[\<lparr>Value = 0, PkScript = [0x6a]\<rparr>]"])
    apply (rule exI [of _ "[op_only 0x51, op_only 0xbb]"])
    apply (simp add: sample_env_simps thread_script_parse thread_script_class r t
        del: sample_ParseScript.simps)
    done
  with GetAdminDetails_results
      [of sample_env "\<lparr>TxIn = [], TxOut = [\<lparr>Value = 0, PkScript = [0x51, 0xbb]\<rparr>,
                          \<lparr>Value = 0, PkScript = [0x6a]\<rparr>]\<rparr>" 1 "[[op_only 0x6a]]"]
  show ?thesis by blast
qed

section \<open>Properties of the block generator\<close>

subsection \<open>The solver\<close>

lemma solver_found_aux:
  assumes "solver E t hdr a b i = Some r"
  shows "found r \<longrightarrow> (a \<le> nonce r \<and> nonce r \<le> b \<and>
         HashToBig E (BlockHash E (hdr\<lparr>Nonce := ucast (nonce r)\<rparr>)) \<le> t)"
proof (rule solver.raw_induct
    [where P = "\<lambda>E t hdr a b i r. found r \<longrightarrow> (a \<le> nonce r \<and> nonce r \<le> b \<and>
         HashToBig E (BlockHash E (hdr\<lparr>Nonce := ucast (nonce r)\<rparr>)) \<le> t)", OF _ assms])
  fix solver' E t hdr a b i r
  assume ih: "\<And>t hdr a b i c y. solver' t hdr a b i c = Some y \<Longrightarrow>
      found y \<longrightarrow> (b \<le> nonce y \<and> nonce y \<le> i \<and>
         HashToBig t (BlockHash t (a\<lparr>Nonce := ucast (nonce y)\<rparr>)) \<le> hdr)"
    and step: "(if a \<le> i \<and> i \<le> b
      then if HashToBig E (BlockHash E (hdr\<lparr>Nonce := ucast i\<rparr>)) \<le> t
           then Some \<lparr>found = True, nonce = i\<rparr>
           else solver' E t hdr a b (i + 1)
      else Some \<lparr>found = False, nonce = 0\<rparr>) = Some r"
  show "found r \<longrightarrow> (a \<le> nonce r \<and> nonce r \<le> b \<and>
         HashToBig E (BlockHash E (hdr\<lparr>Nonce := ucast (nonce r)\<rparr>)) \<le> t)"
  proof (cases "a \<le> i \<and> i \<le> b")
    case False
    with step show ?thesis by auto
  next
    case True
    show ?thesis
    proof (cases "HashToBig E (BlockHash E (hdr\<lparr>Nonce := ucast i\<rparr>)) \<le> t")
      case hit: True
      with True step show ?thesis by auto
    next
      case miss: False
      with True step have "solver' E t hdr a b (i + 1) = Some r" by simp
      from ih [OF this] show ?thesis .
    qed
  qed
qed

lemma solver_found:
  assumes "solver E t hdr a b i = Some r" and "found r"
  shows "a \<le> nonce r" and "nonce r \<le> b"
    and "HashToBig E (BlockHash E (hdr\<lparr>Nonce := ucast (nonce r)\<rparr>)) \<le> t"
  using solver_found_aux [OF assms(1)] assms(2) by blast+

lemma solver_returns:
  assumes "a \<noteq> 0"
  shows "\<exists>r. solver E t hdr a b i = Some r"
proof (induction "2 ^ 32 - unat i" arbitrary: i rule: less_induct)
  case less
  show ?case
  proof (cases "a \<le> i \<and> i \<le> b \<and> \<not> HashToBig E (BlockHash E (hdr\<lparr>Nonce := ucast i\<rparr>)) \<le> t")
    case False
    then show ?thesis
      by (subst solver.simps) auto
  next
    case True
    show ?thesis
    proof (cases "1 + i = 0")
      case z: True
      then have z': "i + 1 = 0" by (simp add: add.commute)
      have "solver E t hdr a b (i + 1) = Some \<lparr>found = False, nonce = 0\<rparr>"
        unfolding z' using assms by (subst solver.simps) simp
      then show ?thesis
        using True by (subst solver.simps) simp
    next
      case nz: False
      have "unat (1 + i) = Suc (unat i)"
        using nz by (rule unatSuc)
      moreover have "unat (1 + i) < 2 ^ 32"
        using unsigned_less [of "1 + i"] by simp
      ultimately have "2 ^ 32 - unat (i + 1) < 2 ^ 32 - unat i"
        by (simp add: add.commute)
      from less [OF this] obtain r where "solver E t hdr a b (i + 1) = Some r" by blast
      then show ?thesis
        using True by (subst solver.simps) simp
    qed
  qed
qed

lemma receive_result:
  assumes "receive n results order header = Some (solved, header')"
  shows "if solved then
           (\<exists>w r. w < length results \<and> results ! w = Some r \<and> found r \<and>
                  header' = header\<lparr>Nonce := ucast (nonce r)\<rparr>)
         else header' = header"
  using assms
proof (induction n results order header rule: receive.induct)
  case (1 results order header)
  then show ?case by auto
next
  case (2 n results header)
  then show ?case by simp
next
  case (3 n results w ws header)
  then show ?case
    by (auto split: if_splits option.splits)
qed

subsection \<open>The nonce ranges\<close>

lemma unat_of_nat_32:
  assumes "m < 4294967296"
  shows "unat (of_nat m :: 32 word) = m"
  using assms by (simp add: unat_of_nat)

lemma noncesPerCore_unat: "unat (noncesPerCore n) = 4294967294 div unat n"
  by (simp add: noncesPerCore_def stopNonce_def startNonce_def unat_div)

lemma noncesPerCore_of_nat: "noncesPerCore n = of_nat (4294967294 div unat n)"
proof -
  have "4294967294 div unat n < (4294967296 :: nat)"
    by (rule le_less_trans [OF div_le_dividend]) simp
  then show ?thesis
    by (simp add: word_unat_eq_iff noncesPerCore_unat unat_of_nat_32)
qed

lemma share_bound:
  fixes N k :: nat
  assumes "k < N"
  shows "(4294967294 div N) * Suc k \<le> 4294967294"
proof -
  have "(4294967294 div N) * Suc k \<le> (4294967294 div N) * N"
    using assms by (intro mult_le_mono2) simp
  also have "\<dots> \<le> 4294967294" by simp
  finally show ?thesis .
qed

lemma rangeStart_unat:
  assumes "k < unat n"
  shows "unat (rangeStart n (of_nat k)) = 1 + (4294967294 div unat n) * k"
proof -
  have "(4294967294 div unat n) * k \<le> (4294967294 div unat n) * Suc k" by simp
  with share_bound [OF assms] have b: "1 + (4294967294 div unat n) * k < 4294967296" by simp
  have "rangeStart n (of_nat k) = of_nat (1 + (4294967294 div unat n) * k)"
    by (simp add: rangeStart_def startNonce_def noncesPerCore_of_nat)
  then show ?thesis
    using unat_of_nat_32 [OF b] by simp
qed

lemma last_worker:
  fixes n :: "32 word"
  assumes "k < unat n"
  shows "(of_nat k = n - 1) \<longleftrightarrow> k = unat n - 1"
proof -
  have n0: "n \<noteq> 0" using assms by auto
  have "unat n < 2 ^ LENGTH(32)" by (rule unsigned_less)
  with assms have k32: "k < 4294967296" by simp
  have "unat (n - 1) = unat n - 1"
    using n0 by (simp add: unat_minus_one)
  then show ?thesis
    by (simp add: word_unat_eq_iff unat_of_nat_32 [OF k32])
qed

lemma rangeStop_unat:
  assumes "Suc k < unat n"
  shows "unat (rangeStop n (of_nat k)) = (4294967294 div unat n) * Suc k"
proof -
  have k: "k < unat n" using assms by simp
  have b: "(4294967294 div unat n) * Suc k < 4294967296"
    using share_bound [OF k] by simp
  have "of_nat k \<noteq> n - 1"
    using last_worker [OF k] assms by simp
  then have "rangeStop n (of_nat k) =
      1 + of_nat (4294967294 div unat n) * (of_nat k + 1) - 1"
    by (simp add: rangeStop_def startNonce_def noncesPerCore_of_nat)
  also have "\<dots> = of_nat ((4294967294 div unat n) * Suc k)"
    by (simp add: algebra_simps)
  finally show ?thesis
    using unat_of_nat_32 [OF b] by simp
qed

lemma rangeStop_last:
  assumes "Suc k = unat n"
  shows "unat (rangeStop n (of_nat k)) = 4294967295"
proof -
  have k: "k < unat n" using assms by simp
  have "of_nat k = n - 1"
    using last_worker [OF k] assms by simp
  then show ?thesis
    by (simp add: rangeStop_def stopNonce_def)
qed

lemma rangeStart_ge_1:
  assumes "k < unat n"
  shows "1 \<le> rangeStart n (of_nat k)"
  using rangeStart_unat [OF assms] by (simp add: word_le_nat_alt)

lemma searched_inner:
  assumes "Suc k < unat n"
  shows "searched n k = {1 + (4294967294 div unat n) * k .. (4294967294 div unat n) * Suc k}"
proof -
  have "k < unat n" using assms by simp
  then show ?thesis
    by (simp add: searched_def rangeStart_unat rangeStop_unat [OF assms])
qed

lemma searched_last:
  assumes "Suc k = unat n"
  shows "searched n k = {1 + (4294967294 div unat n) * k .. 4294967295}"
proof -
  have "k < unat n" using assms by simp
  then show ?thesis
    by (simp add: searched_def rangeStart_unat rangeStop_last [OF assms])
qed

lemma searched_subset:
  assumes "k < unat n"
  shows "searched n k \<subseteq> {1 .. 4294967295}"
proof (cases "Suc k = unat n")
  case True
  then show ?thesis by (auto simp add: searched_last)
next
  case False
  with assms have s: "Suc k < unat n" by simp
  show ?thesis
    using share_bound [OF assms] by (auto simp add: searched_inner [OF s])
qed

lemma searched_cover:
  assumes n: "0 < unat n" and x: "1 \<le> x" "x \<le> 4294967295"
  shows "\<exists>k < unat n. x \<in> searched n k"
proof -
  define q where "q = 4294967294 div unat n"
  obtain m where m: "unat n = Suc m" using n by (cases "unat n") auto
  show ?thesis
  proof (cases "x \<le> q * m")
    case False
    then have "x \<in> searched n m"
      using x by (simp add: searched_last [OF m [symmetric]] q_def)
    then show ?thesis using m by auto
  next
    case True
    with x have q0: "0 < q" by (cases q) auto
    define k where "k = (x - 1) div q"
    have "x - 1 < q * m" using True x by simp
    then have km: "k < m"
      unfolding k_def using q0 by (simp add: less_mult_imp_div_less mult.commute)
    have lo: "q * k \<le> x - 1"
      unfolding k_def by simp
    have hi: "x - 1 < q * Suc k"
      unfolding k_def using q0 dividend_less_times_div [of q "x - 1"] by (simp add: mult.commute)
    have s: "Suc k < unat n" using km m by simp
    have "x \<in> searched n k"
      using lo hi x unfolding searched_inner [OF s] q_def [symmetric] by auto
    then show ?thesis using s by (intro exI [of _ k]) simp
  qed
qed

lemma searched_disjoint:
  assumes "j < k" and "k < unat n"
  shows "searched n j \<inter> searched n k = {}"
proof -
  have s: "Suc j < unat n" using assms by simp
  have "(4294967294 div unat n) * Suc j \<le> (4294967294 div unat n) * k"
    using assms(1) by (intro mult_le_mono2) simp
  then have "\<forall>x \<in> searched n j. x < unat (rangeStart n (of_nat k))"
    by (auto simp add: searched_inner [OF s] rangeStart_unat [OF assms(2)])
  then show ?thesis
    by (auto simp add: searched_def [of n k])
qed

lemma ranges_contiguous:
  assumes "Suc k < unat n"
  shows "unat (rangeStart n (of_nat (Suc k))) = Suc (unat (rangeStop n (of_nat k)))"
  using rangeStart_unat [OF assms] rangeStop_unat [OF assms] by simp

lemma searched_union:
  assumes "numCores \<noteq> 0"
  shows "(\<Union>k < unat numCores. searched numCores k) = {1 .. 4294967295}"
proof
  show "(\<Union>k < unat numCores. searched numCores k) \<subseteq> {1 .. 4294967295}"
    using searched_subset by blast
next
  have pos: "0 < unat numCores" using assms by (simp add: unat_gt_0)
  show "{1 .. 4294967295} \<subseteq> (\<Union>k < unat numCores. searched numCores k)"
  proof
    fix x :: nat
    assume "x \<in> {1 .. 4294967295}"
    then have "1 \<le> x" and "x \<le> 4294967295" by simp_all
    from searched_cover [OF pos this]
    obtain k where "k < unat numCores" and "x \<in> searched numCores k" by blast
    then show "x \<in> (\<Union>k < unat numCores. searched numCores k)" by blast
  qed
qed

lemma workers_nth:
  assumes "w < length (workers E header n)"
  shows "w < unat n" and
    "workers E header n ! w =
       solver E (CompactToBig E (Bits header)) header
         (rangeStart n (of_nat w)) (rangeStop n (of_nat w)) (rangeStart n (of_nat w))"
  using assms by (simp_all add: workers_def)

lemma solveBlock_solved:
  assumes "solveBlock E header = Some (Inr (True, header'))"
  shows "\<exists>n :: 32 word. 1 \<le> n \<and> header' = header\<lparr>Nonce := ucast n\<rparr> \<and>
           HashToBig E (BlockHash E header') \<le> CompactToBig E (Bits header)"
proof -
  from assms have nz: "NumCPU E \<noteq> 0"
    and r: "receive (unat (NumCPU E)) (workers E header (NumCPU E)) (arrival E header) header
            = Some (True, header')"
    by (auto simp add: solveBlock_def Let_def split: if_splits)
  from receive_result [OF r]
  obtain w res where w: "w < length (workers E header (NumCPU E))"
    and res: "workers E header (NumCPU E) ! w = Some res"
    and f: "found res" and h: "header' = header\<lparr>Nonce := ucast (nonce res)\<rparr>"
    by auto
  note wk = workers_nth [OF w]
  from res wk(2) have s: "solver E (CompactToBig E (Bits header)) header
         (rangeStart (NumCPU E) (of_nat w)) (rangeStop (NumCPU E) (of_nat w))
         (rangeStart (NumCPU E) (of_nat w)) = Some res" by simp
  have "1 \<le> nonce res"
    using solver_found(1) [OF s f] rangeStart_ge_1 [OF wk(1)] by (rule order_trans [rotated])
  moreover have "HashToBig E (BlockHash E header') \<le> CompactToBig E (Bits header)"
    using solver_found(3) [OF s f] h by simp
  ultimately show ?thesis using h by blast
qed

lemma solveBlock_unsolved:
  assumes "solveBlock E header = Some (Inr (False, header'))"
  shows "header' = header"
proof -
  from assms have r: "receive (unat (NumCPU E)) (workers E header (NumCPU E)) (arrival E header) header
            = Some (False, header')"
    by (auto simp add: solveBlock_def Let_def split: if_splits)
  from receive_result [OF r] show ?thesis by simp
qed

lemma ucast_nonce_bounds:
  fixes n :: "32 word"
  assumes "1 \<le> n"
  shows "1 \<le> unat (ucast n :: 64 word)" and "unat (ucast n :: 64 word) \<le> 4294967295"
    and "(ucast n :: 64 word) \<noteq> 0"
proof -
  have lt: "unat n < 2 ^ LENGTH(32)" by (rule unsigned_less)
  then have "unat n < 2 ^ 64" by simp
  then have u: "unat (ucast n :: 64 word) = unat n"
    by (simp add: unsigned_ucast_eq take_bit_nat_eq_self)
  from lt show "unat (ucast n :: 64 word) \<le> 4294967295" using u by simp
  show "1 \<le> unat (ucast n :: 64 word)"
    using assms u by (simp add: word_le_nat_alt)
  then show "(ucast n :: 64 word) \<noteq> 0" by auto
qed

subsection \<open>Evaluating the concrete chain\<close>

lemma sample_chain_simps:
  "BlockHash sample_chain = (\<lambda>h. ucast ((Nonce h + 5) mod 8))"
  "Sign sample_chain = (\<lambda>h. h)"
  "SerializeSize sample_chain = (\<lambda>b. 80 + length (Transactions b))"
  "BuildMerkleRoot sample_chain = (\<lambda>txns. of_nat (length txns))"
  "CompactToBig sample_chain = uint"
  "HashToBig sample_chain = uint"
  "NumCPU sample_chain = 2"
  "arrival sample_chain = (\<lambda>h. [0, 1])"
  "createCoinbaseTx sample_chain = (\<lambda>g height. \<lparr>TxIn = [], TxOut = [\<lparr>Value = 50, PkScript = []\<rparr>]\<rparr>)"
  "now sample_chain = 0"
  by (simp_all add: sample_chain_def)

lemma workers_length: "length (workers E header n) = unat n"
  by (simp add: workers_def)

lemma workers_at:
  assumes "w < unat n"
  shows "workers E header n ! w =
       solver E (CompactToBig E (Bits header)) header
         (rangeStart n (of_nat w)) (rangeStop n (of_nat w)) (rangeStart n (of_nat w))"
  using assms by (simp add: workers_def)

lemma sample_first_range: "rangeStart 2 0 = 1" "rangeStop 2 0 = 0x7FFFFFFF"
  by (simp_all add: rangeStart_def rangeStop_def startNonce_def stopNonce_def noncesPerCore_def)

lemma sample_solver:
  assumes "Bits h = 0"
  shows "solver sample_chain 0 h 1 0x7FFFFFFF 1 = Some \<lparr>found = True, nonce = 3\<rparr>"
  apply (subst solver.simps, simp add: sample_chain_simps)
  apply (subst solver.simps, simp add: sample_chain_simps)
  apply (subst solver.simps, simp add: sample_chain_simps)
  done

lemma sample_solveBlock:
  assumes "Bits h = 0"
  shows "solveBlock sample_chain h = Some (Inr (True, h\<lparr>Nonce := 3\<rparr>))"
proof -
  have two: "unat (2 :: 32 word) = Suc (Suc 0)" by simp
  have w0: "workers sample_chain h 2 ! 0 = Some \<lparr>found = True, nonce = 3\<rparr>"
    using workers_at [of 0 2 sample_chain h] assms
    by (simp add: sample_first_range sample_chain_simps sample_solver)
  have r: "receive (unat (2 :: 32 word)) (workers sample_chain h 2) [0, 1] h =
      Some (True, h\<lparr>Nonce := 3\<rparr>)"
    unfolding two by (simp add: workers_length w0)
  show ?thesis
    unfolding solveBlock_def Let_def by (simp only: sample_chain_simps r) simp
qed

subsection \<open>solveBlock\<close>

text \<open>
  C8. When \<open>solveBlock\<close> returns true, the nonce it has written into the header lies
  between 1 and \<open>2^32 - 1\<close> (it is not 0), the rest of the header is unchanged, and the
  hash of the header, as a big integer, is at most the target \<open>CompactToBig(Bits)\<close>.
  For any number of workers other than 0, the ranges of the workers cover exactly the
  nonces from 1 to \<open>2^32 - 1\<close>, are pairwise disjoint, and each starts right after the
  one before ends.
\<close>

theorem solveBlock_nonce_and_ranges:
  "(solveBlock E header = Some (Inr (True, header')) \<longrightarrow>
      1 \<le> unat (Nonce header') \<and> unat (Nonce header') \<le> 4294967295 \<and>
      Nonce header' \<noteq> 0 \<and>
      header' = header\<lparr>Nonce := Nonce header'\<rparr> \<and>
      HashToBig E (BlockHash E header') \<le> CompactToBig E (Bits header)) \<and>
   (numCores \<noteq> 0 \<longrightarrow>
      (\<Union>k < unat numCores. searched numCores k) = {1 .. 4294967295} \<and>
      (\<forall>j k. j < k \<and> k < unat numCores \<longrightarrow>
         searched numCores j \<inter> searched numCores k = {}) \<and>
      (\<forall>k. Suc k < unat numCores \<longrightarrow>
         unat (rangeStart numCores (of_nat (Suc k))) =
         Suc (unat (rangeStop numCores (of_nat k)))))"
proof (intro conjI impI allI)
  assume s: "solveBlock E header = Some (Inr (True, header'))"
  from solveBlock_solved [OF s] obtain n :: "32 word" where n: "1 \<le> n"
    and h: "header' = header\<lparr>Nonce := ucast n\<rparr>"
    and t: "HashToBig E (BlockHash E header') \<le> CompactToBig E (Bits header)"
    by blast
  have nonce: "Nonce header' = ucast n" using h by simp
  show "1 \<le> unat (Nonce header')" "unat (Nonce header') \<le> 4294967295"
    "Nonce header' \<noteq> 0"
    unfolding nonce using ucast_nonce_bounds [OF n] by blast+
  show "header' = header\<lparr>Nonce := Nonce header'\<rparr>"
    using h by simp
  show "HashToBig E (BlockHash E header') \<le> CompactToBig E (Bits header)"
    by (rule t)
next
  assume "numCores \<noteq> 0"
  then show "(\<Union>k < unat numCores. searched numCores k) = {1 .. 4294967295}"
    by (rule searched_union)
next
  fix j k
  assume "j < k \<and> k < unat numCores"
  then show "searched numCores j \<inter> searched numCores k = {}"
    using searched_disjoint by blast
next
  fix k
  assume "Suc k < unat numCores"
  then show "unat (rangeStart numCores (of_nat (Suc k))) =
         Suc (unat (rangeStop numCores (of_nat k)))"
    by (rule ranges_contiguous)
qed

theorem solveBlock_nonce_and_ranges_witness:
  "solveBlock sample_chain sample_header = Some (Inr (True, sample_header\<lparr>Nonce := 3\<rparr>)) \<and>
   HashToBig sample_chain (BlockHash sample_chain (sample_header\<lparr>Nonce := 3\<rparr>))
     \<le> CompactToBig sample_chain (Bits sample_header) \<and>
   (\<Union>k < unat (2 :: 32 word). searched 2 k) = {1 .. 4294967295}"
proof -
  have b: "Bits sample_header = 0" by (simp add: sample_header_def)
  have s: "solveBlock sample_chain sample_header =
      Some (Inr (True, sample_header\<lparr>Nonce := 3\<rparr>))"
    by (rule sample_solveBlock [OF b])
  have two: "(2 :: 32 word) \<noteq> 0" by simp
  from solveBlock_nonce_and_ranges
      [of sample_chain sample_header "sample_header\<lparr>Nonce := 3\<rparr>" 2]
  show ?thesis using s two by blast
qed

lemma sealBlock_Transactions: "Transactions (sealBlock E root block) = Transactions block"
  by (simp add: sealBlock_def Let_def)

lemma sealBlock_MerkleRoot:
  assumes "\<And>h. MerkleRoot (Sign E h) = MerkleRoot h"
  shows "MerkleRoot (Header (sealBlock E root block)) =
     (if MerkleRoot (Header block) = root then calcMerkleRoot E (Transactions block)
      else MerkleRoot (Header block))"
  by (simp add: sealBlock_def Let_def assms)

lemma sealBlock_Nonce:
  assumes "\<And>h. Nonce (Sign E h) = Nonce h"
  shows "Nonce (Header (sealBlock E root block)) = Nonce (Header block)"
  by (simp add: sealBlock_def Let_def assms)

lemma draftBlock_Nonce: "Nonce (Header (draftBlock E g tipBlock txns)) = 0"
  by (simp add: draftBlock_def Let_def)

lemma nextBlock_unfold:
  assumes "blockTransactions E g spend = Inr txns" and "tip g = Some tipBlock"
  shows "nextBlock E g blockName spend mungers =
     (let block = sealBlock E (MerkleRoot (Header (draftBlock E g tipBlock txns)))
                    (munge mungers (draftBlock E g tipBlock txns)) in
      if Nonce (Header block) = 0 then
        (case solveBlock E (Header block) of
           None \<Rightarrow> None
         | Some (Inl p) \<Rightarrow> Some (Inl p)
         | Some (Inr (solved, header)) \<Rightarrow>
             (if solved then
                Some (Inr (block\<lparr>Header := header\<rparr>,
                  registerBlock E g blockName (block\<lparr>Header := header\<rparr>)))
              else
                Some (Inl (PanicString
                  (''Unable to solve block at height '' @ decimal (unat (tipHeight g + 1)))))))
      else Some (Inr (block, registerBlock E g blockName block)))"
  unfolding nextBlock_def assms Let_def sum.case option.case draftBlock_Nonce
  by (auto split: option.splits sum.splits prod.splits)

subsection \<open>nextBlock\<close>

lemma nextBlock_steps:
  fixes mungers :: "(MsgBlock \<Rightarrow> MsgBlock) list"
  assumes txns: "blockTransactions E g spend = Inr txns"
    and tip: "tip g = Some tipBlock"
    and sign: "\<And>h. MerkleRoot (Sign E h) = MerkleRoot h \<and> Nonce (Sign E h) = Nonce h"
  defines "draft \<equiv> draftBlock E g tipBlock txns"
  defines "munged \<equiv> munge mungers draft"
  defines "sealed \<equiv> sealBlock E (MerkleRoot (Header draft)) munged"
  shows "Nonce (Header draft) = 0"
    and "Transactions sealed = Transactions munged"
    and "MerkleRoot (Header munged) = MerkleRoot (Header draft) \<longrightarrow>
           MerkleRoot (Header sealed) = calcMerkleRoot E (Transactions munged)"
    and "MerkleRoot (Header munged) \<noteq> MerkleRoot (Header draft) \<longrightarrow>
           MerkleRoot (Header sealed) = MerkleRoot (Header munged)"
    and "Nonce (Header munged) \<noteq> 0 \<longrightarrow>
           Nonce (Header sealed) = Nonce (Header munged) \<and>
           nextBlock E g blockName spend mungers =
             Some (Inr (sealed, registerBlock E g blockName sealed))"
    and "Nonce (Header munged) = 0 \<longrightarrow>
           nextBlock E g blockName spend mungers =
             (case solveBlock E (Header sealed) of
                None \<Rightarrow> None
              | Some (Inl p) \<Rightarrow> Some (Inl p)
              | Some (Inr (solved, header)) \<Rightarrow>
                  (if solved then
                     Some (Inr (sealed\<lparr>Header := header\<rparr>,
                       registerBlock E g blockName (sealed\<lparr>Header := header\<rparr>)))
                   else
                     Some (Inl (PanicString
                       (''Unable to solve block at height '' @
                         decimal (unat (tipHeight g + 1)))))))"
    and "nextBlock E g blockName spend mungers = Some (Inr (block, g')) \<longrightarrow>
           Transactions block = Transactions munged \<and>
           MerkleRoot (Header block) = MerkleRoot (Header sealed) \<and>
           (Nonce (Header munged) \<noteq> 0 \<longrightarrow> Nonce (Header block) = Nonce (Header munged)) \<and>
           (Nonce (Header munged) = 0 \<longrightarrow>
              Nonce (Header block) \<noteq> 0 \<and>
              HashToBig E (BlockHash E (Header block))
                \<le> CompactToBig E (Bits (Header sealed)))"
proof -
  have m: "\<And>h. MerkleRoot (Sign E h) = MerkleRoot h" and n: "\<And>h. Nonce (Sign E h) = Nonce h"
    using sign by blast+
  show d0: "Nonce (Header draft) = 0"
    by (simp add: draft_def draftBlock_Nonce)
  show tx: "Transactions sealed = Transactions munged"
    by (simp add: sealed_def sealBlock_Transactions)
  have root: "MerkleRoot (Header sealed) =
      (if MerkleRoot (Header munged) = MerkleRoot (Header draft)
       then calcMerkleRoot E (Transactions munged) else MerkleRoot (Header munged))"
    unfolding sealed_def by (rule sealBlock_MerkleRoot [OF m])
  show "MerkleRoot (Header munged) = MerkleRoot (Header draft) \<longrightarrow>
           MerkleRoot (Header sealed) = calcMerkleRoot E (Transactions munged)"
    using root by simp
  show "MerkleRoot (Header munged) \<noteq> MerkleRoot (Header draft) \<longrightarrow>
           MerkleRoot (Header sealed) = MerkleRoot (Header munged)"
    using root by simp
  have nonce: "Nonce (Header sealed) = Nonce (Header munged)"
    unfolding sealed_def by (rule sealBlock_Nonce [OF n])
  note unfold = nextBlock_unfold [OF txns tip, of blockName mungers,
      folded draft_def, folded munged_def, folded sealed_def, unfolded Let_def nonce]
  show unsolved: "Nonce (Header munged) \<noteq> 0 \<longrightarrow>
           Nonce (Header sealed) = Nonce (Header munged) \<and>
           nextBlock E g blockName spend mungers =
             Some (Inr (sealed, registerBlock E g blockName sealed))"
    using nonce unfold by simp
  show solved: "Nonce (Header munged) = 0 \<longrightarrow>
           nextBlock E g blockName spend mungers =
             (case solveBlock E (Header sealed) of
                None \<Rightarrow> None
              | Some (Inl p) \<Rightarrow> Some (Inl p)
              | Some (Inr (solved, header)) \<Rightarrow>
                  (if solved then
                     Some (Inr (sealed\<lparr>Header := header\<rparr>,
                       registerBlock E g blockName (sealed\<lparr>Header := header\<rparr>)))
                   else
                     Some (Inl (PanicString
                       (''Unable to solve block at height '' @
                         decimal (unat (tipHeight g + 1)))))))"
    using unfold by simp
  show "nextBlock E g blockName spend mungers = Some (Inr (block, g')) \<longrightarrow>
           Transactions block = Transactions munged \<and>
           MerkleRoot (Header block) = MerkleRoot (Header sealed) \<and>
           (Nonce (Header munged) \<noteq> 0 \<longrightarrow> Nonce (Header block) = Nonce (Header munged)) \<and>
           (Nonce (Header munged) = 0 \<longrightarrow>
              Nonce (Header block) \<noteq> 0 \<and>
              HashToBig E (BlockHash E (Header block))
                \<le> CompactToBig E (Bits (Header sealed)))"
  proof (intro impI, cases "Nonce (Header munged) = 0")
    case False
    assume r: "nextBlock E g blockName spend mungers = Some (Inr (block, g'))"
    with unsolved False have "block = sealed" by simp
    then show "Transactions block = Transactions munged \<and>
           MerkleRoot (Header block) = MerkleRoot (Header sealed) \<and>
           (Nonce (Header munged) \<noteq> 0 \<longrightarrow> Nonce (Header block) = Nonce (Header munged)) \<and>
           (Nonce (Header munged) = 0 \<longrightarrow>
              Nonce (Header block) \<noteq> 0 \<and>
              HashToBig E (BlockHash E (Header block))
                \<le> CompactToBig E (Bits (Header sealed)))"
      using tx nonce False by simp
  next
    case True
    assume r: "nextBlock E g blockName spend mungers = Some (Inr (block, g'))"
    with solved True obtain header where
      s: "solveBlock E (Header sealed) = Some (Inr (True, header))"
      and b: "block = sealed\<lparr>Header := header\<rparr>"
      by (auto split: option.splits sum.splits prod.splits if_splits)
    from solveBlock_solved [OF s] obtain k :: "32 word" where k: "1 \<le> k"
      and h: "header = (Header sealed)\<lparr>Nonce := ucast k\<rparr>"
      and t: "HashToBig E (BlockHash E header) \<le> CompactToBig E (Bits (Header sealed))"
      by blast
    have "Nonce (Header block) \<noteq> 0"
      using ucast_nonce_bounds(3) [OF k] b h by simp
    moreover have "MerkleRoot (Header block) = MerkleRoot (Header sealed)"
      using b h by simp
    ultimately show "Transactions block = Transactions munged \<and>
           MerkleRoot (Header block) = MerkleRoot (Header sealed) \<and>
           (Nonce (Header munged) \<noteq> 0 \<longrightarrow> Nonce (Header block) = Nonce (Header munged)) \<and>
           (Nonce (Header munged) = 0 \<longrightarrow>
              Nonce (Header block) \<noteq> 0 \<and>
              HashToBig E (BlockHash E (Header block))
                \<le> CompactToBig E (Bits (Header sealed)))"
      using tx True t b by simp
  qed
qed

text \<open>
  C7. \<open>nextBlock\<close> with any list of munge functions, on a generator whose tip is set
  and whose coinbase can be built. \<open>draft\<close> is the block before the munge functions
  run (its nonce is the sentinel 0), \<open>munged\<close> the block after all of them have run in
  order (the first function of the list on the draft, the second on its result, and so
  on: the left fold of the list over the draft), \<open>sealed\<close> the block after the
  merkle root, size and signature step. A field
  counts as changed when its value after the munge functions differs from the one
  before. The merkle root of the block is the root recalculated from the final
  transactions if the munge functions left the field unchanged, and is the munged root
  otherwise. If the munge functions left the nonce away from 0, \<open>nextBlock\<close> returns
  the sealed block as it is, whatever \<open>solveBlock\<close> would do; if they left it 0,
  what \<open>nextBlock\<close> returns is decided by \<open>solveBlock\<close> on the sealed header: the
  block with the solved header, or the panic. Signing is assumed to leave the merkle
  root and the nonce of a header alone.
\<close>

theorem nextBlock_recalculates_and_solves:
  assumes "blockTransactions E g spend = Inr txns"
    and "tip g = Some tipBlock"
    and "\<And>h. MerkleRoot (Sign E h) = MerkleRoot h \<and> Nonce (Sign E h) = Nonce h"
  shows
    "let draft = draftBlock E g tipBlock txns;
         munged = foldl (\<lambda>block f. f block) draft mungers;
         sealed = sealBlock E (MerkleRoot (Header draft)) munged
     in
       Nonce (Header draft) = 0 \<and>
       Transactions sealed = Transactions munged \<and>
       (MerkleRoot (Header munged) = MerkleRoot (Header draft) \<longrightarrow>
          MerkleRoot (Header sealed) = calcMerkleRoot E (Transactions munged)) \<and>
       (MerkleRoot (Header munged) \<noteq> MerkleRoot (Header draft) \<longrightarrow>
          MerkleRoot (Header sealed) = MerkleRoot (Header munged)) \<and>
       (Nonce (Header munged) \<noteq> 0 \<longrightarrow>
          Nonce (Header sealed) = Nonce (Header munged) \<and>
          nextBlock E g blockName spend mungers =
            Some (Inr (sealed, registerBlock E g blockName sealed))) \<and>
       (Nonce (Header munged) = 0 \<longrightarrow>
          nextBlock E g blockName spend mungers =
            (case solveBlock E (Header sealed) of
               None \<Rightarrow> None
             | Some (Inl p) \<Rightarrow> Some (Inl p)
             | Some (Inr (solved, header)) \<Rightarrow>
                 (if solved then
                    Some (Inr (sealed\<lparr>Header := header\<rparr>,
                      registerBlock E g blockName (sealed\<lparr>Header := header\<rparr>)))
                  else
                    Some (Inl (PanicString
                      (''Unable to solve block at height '' @
                        decimal (unat (tipHeight g + 1)))))))) \<and>
       (\<forall>block g'. nextBlock E g blockName spend mungers = Some (Inr (block, g')) \<longrightarrow>
          Transactions block = Transactions munged \<and>
          MerkleRoot (Header block) = MerkleRoot (Header sealed) \<and>
          (Nonce (Header munged) \<noteq> 0 \<longrightarrow> Nonce (Header block) = Nonce (Header munged)) \<and>
          (Nonce (Header munged) = 0 \<longrightarrow>
             Nonce (Header block) \<noteq> 0 \<and>
             HashToBig E (BlockHash E (Header block))
               \<le> CompactToBig E (Bits (Header sealed))))"
  unfolding Let_def munge_def [symmetric]
  apply (intro conjI allI)
        apply (rule nextBlock_steps(1) [OF assms])
       apply (rule nextBlock_steps(2) [OF assms])
      apply (rule nextBlock_steps(3) [OF assms])
     apply (rule nextBlock_steps(4) [OF assms])
    apply (rule nextBlock_steps(5) [OF assms])
   apply (rule nextBlock_steps(6) [OF assms])
  apply (rule nextBlock_steps(7) [OF assms])
  done

subsection \<open>setTip\<close>

lemma registerBlock_names:
  "dom (blocksByName (registerBlock E g blockName block)) = insert blockName (dom (blocksByName g))"
  "dom (blockHeights (registerBlock E g blockName block)) = insert blockName (dom (blockHeights g))"
  by (simp_all add: registerBlock_def Let_def)

lemma nextBlock_registers:
  assumes "nextBlock E g blockName spend mungers = Some (Inr (block, g'))"
  shows "g' = registerBlock E g blockName block"
  using assms
  by (auto simp add: nextBlock_def Let_def split: sum.splits option.splits if_splits prod.splits)

lemma saveTipCoinbaseOut_names:
  assumes "saveTipCoinbaseOut E g = Inr g'"
  shows "blocksByName g' = blocksByName g" and "blockHeights g' = blockHeights g"
  using assms
  by (auto simp add: saveTipCoinbaseOut_def split: sum.splits option.splits)

lemma oldestCoinbaseOut_names:
  assumes "oldestCoinbaseOut g = Inr (out, g')"
  shows "blocksByName g' = blocksByName g" and "blockHeights g' = blockHeights g"
  using assms
  by (auto simp add: oldestCoinbaseOut_def split: list.splits)

lemma generated_names:
  assumes "generated E names g"
  shows "dom (blocksByName g) = names \<and> dom (blockHeights g) = names"
  using assms
proof (induction rule: generated.induct)
  case (made ps g)
  then show ?case by (auto simp add: makeTestGenerator_def Let_def split: if_splits)
next
  case (next_block names g blockName spend mungers block g')
  then show ?case
    using nextBlock_registers [OF next_block.hyps(2)] by (simp add: registerBlock_names)
next
  case (set_tip names g blockName)
  then show ?case by (simp add: setTip_def)
next
  case (save_out names g g')
  then show ?case
    by (simp add: saveTipCoinbaseOut_names [OF save_out.hyps(2)])
next
  case (oldest_out names g out g')
  then show ?case
    by (simp add: oldestCoinbaseOut_names [OF oldest_out.hyps(2)])
qed

lemma nextBlock_nil_tip:
  assumes "tip g = None"
  shows "nextBlock E g blockName spend mungers = Some (Inl nil_dereference) \<or>
         nextBlock E g blockName spend mungers = Some (Inl index_out_of_range)"
    and "nextBlock E g blockName None mungers = Some (Inl nil_dereference)"
  using assms
  by (auto simp add: nextBlock_def blockTransactions_def Let_def split: sum.splits option.splits list.splits)

text \<open>
  C10. In a generator state reached from \<open>makeTestGenerator\<close>, for a block name that
  is not \<open>genesis\<close> and that no returning call of \<open>nextBlock\<close> has registered,
  \<open>setTip\<close> (which has no error to return) sets the tip to nil, the tip height to 0
  and the tip name to the name given; every \<open>nextBlock\<close> after it panics, on the nil
  tip (or, with a spendable output and a coinbase without outputs, on the index before
  it gets there).
\<close>

theorem setTip_unregistered_name:
  assumes "generated E names g"
    and "blockName \<notin> names"
  shows "tip (setTip g blockName) = None \<and>
         tipHeight (setTip g blockName) = 0 \<and>
         tipName (setTip g blockName) = blockName \<and>
         (\<forall>next spend mungers.
            nextBlock E (setTip g blockName) next spend mungers = Some (Inl nil_dereference) \<or>
            nextBlock E (setTip g blockName) next spend mungers = Some (Inl index_out_of_range)) \<and>
         (\<forall>next mungers.
            nextBlock E (setTip g blockName) next None mungers = Some (Inl nil_dereference))"
proof -
  from generated_names [OF assms(1)] assms(2)
  have "blocksByName g blockName = None" and "blockHeights g blockName = None"
    by auto
  then have t: "tip (setTip g blockName) = None"
    and h: "tipHeight (setTip g blockName) = 0"
    and n: "tipName (setTip g blockName) = blockName"
    by (simp_all add: setTip_def)
  show ?thesis
    using t h n nextBlock_nil_tip [OF t] by blast
qed

lemma sample_generator_made:
  "makeTestGenerator sample_chain sample_params = Inr sample_generator"
  by (simp add: sample_generator_def makeTestGenerator_def Let_def)

lemma sample_generator_simps:
  "tip sample_generator = Some \<lparr>Header = sample_header, Transactions = []\<rparr>"
  "tipHeight sample_generator = 0"
  "PowLimitBits (params sample_generator) = 0"
  by (simp_all add: sample_generator_def makeTestGenerator_def Let_def sample_params_def
      sample_chain_simps)

theorem setTip_unregistered_name_witness:
  "tip (setTip sample_generator ''b99'') = None \<and>
   tipHeight (setTip sample_generator ''b99'') = 0 \<and>
   nextBlock sample_chain (setTip sample_generator ''b99'') ''b100'' None [] =
     Some (Inl nil_dereference)"
proof -
  have g: "generated sample_chain {''genesis''} sample_generator"
    by (rule generated.made [OF sample_generator_made])
  have n: "''b99'' \<notin> {''genesis''}" by simp
  from setTip_unregistered_name [OF g n] show ?thesis by blast
qed

text \<open>
  Two runs on the concrete chain, whose draft block holds the coinbase alone and has the
  merkle root 1. In the first the munge functions write the merkle root 5, then the
  nonce 9, then the nonce 11: the block keeps the root 5, although its transactions
  have the root 1, and the nonce 11 of the last function, unsolved. In the second the
  one munge function adds a transaction: the root is recalculated from the two
  transactions, and the block is solved, with the nonce 3.
\<close>

theorem nextBlock_recalculates_and_solves_witness:
  "(\<exists>block g'.
      nextBlock sample_chain sample_generator ''b1'' None
        [setMerkleRoot 5, setNonce 9, setNonce 11] = Some (Inr (block, g')) \<and>
      MerkleRoot (Header block) = 5 \<and>
      calcMerkleRoot sample_chain (Transactions block) = 1 \<and>
      Nonce (Header block) = 11) \<and>
   (\<exists>block g'.
      nextBlock sample_chain sample_generator ''b1'' None
        [additionalTx \<lparr>TxIn = [], TxOut = []\<rparr>] = Some (Inr (block, g')) \<and>
      length (Transactions block) = 2 \<and>
      MerkleRoot (Header block) = calcMerkleRoot sample_chain (Transactions block) \<and>
      MerkleRoot (Header block) = 2 \<and>
      Nonce (Header block) = 3)"
proof -
  define cb where "cb = \<lparr>TxIn = [], TxOut = [\<lparr>Value = 50, PkScript = []\<rparr>]\<rparr>"
  define tipBlock where "tipBlock = \<lparr>Header = sample_header, Transactions = []\<rparr>"
  define draft where "draft = draftBlock sample_chain sample_generator tipBlock [cb]"
  have txns: "blockTransactions sample_chain sample_generator None = Inr [cb]"
    by (simp add: blockTransactions_def Let_def sample_chain_simps cb_def)
  have tip: "tip sample_generator = Some tipBlock"
    by (simp add: sample_generator_simps tipBlock_def)
  have sign: "\<And>h. MerkleRoot (Sign sample_chain h) = MerkleRoot h \<and>
                  Nonce (Sign sample_chain h) = Nonce h"
    by (simp add: sample_chain_simps)
  have d: "MerkleRoot (Header draft) = 1" "Transactions draft = [cb]" "Bits (Header draft) = 0"
    by (simp_all add: draft_def draftBlock_def Let_def calcMerkleRoot_def sample_chain_simps
        sample_generator_simps)
  have first: "\<exists>block g'.
      nextBlock sample_chain sample_generator ''b1'' None
        [setMerkleRoot 5, setNonce 9, setNonce 11] = Some (Inr (block, g')) \<and>
      MerkleRoot (Header block) = 5 \<and>
      calcMerkleRoot sample_chain (Transactions block) = 1 \<and>
      Nonce (Header block) = 11"
  proof -
    define munged where "munged = setNonce 11 (setNonce 9 (setMerkleRoot 5 draft))"
    define sealed where "sealed = sealBlock sample_chain (MerkleRoot (Header draft)) munged"
    have f: "foldl (\<lambda>block f. f block) draft [setMerkleRoot 5, setNonce 9, setNonce 11] = munged"
      by (simp add: munged_def)
    note T = nextBlock_recalculates_and_solves [OF txns tip sign,
        of "[setMerkleRoot 5, setNonce 9, setNonce 11]" "''b1''",
        unfolded Let_def, folded draft_def, unfolded f, folded sealed_def]
    have m: "MerkleRoot (Header munged) = 5" "Nonce (Header munged) = 11"
      "Transactions munged = [cb]"
      by (simp_all add: munged_def setNonce_def setMerkleRoot_def d)
    have "MerkleRoot (Header munged) \<noteq> MerkleRoot (Header draft)"
      by (simp add: m d)
    with T have root: "MerkleRoot (Header sealed) = 5" by (simp add: m)
    have "Nonce (Header munged) \<noteq> 0" by (simp add: m)
    with T have run: "nextBlock sample_chain sample_generator ''b1'' None
          [setMerkleRoot 5, setNonce 9, setNonce 11] =
        Some (Inr (sealed, registerBlock sample_chain sample_generator ''b1'' sealed))"
      and nonce: "Nonce (Header sealed) = 11"
      by (simp_all add: m)
    from T have "Transactions sealed = [cb]" by (simp add: m)
    then have "calcMerkleRoot sample_chain (Transactions sealed) = 1"
      by (simp add: calcMerkleRoot_def sample_chain_simps)
    with run root nonce show ?thesis by blast
  qed
  have second: "\<exists>block g'.
      nextBlock sample_chain sample_generator ''b1'' None
        [additionalTx \<lparr>TxIn = [], TxOut = []\<rparr>] = Some (Inr (block, g')) \<and>
      length (Transactions block) = 2 \<and>
      MerkleRoot (Header block) = calcMerkleRoot sample_chain (Transactions block) \<and>
      MerkleRoot (Header block) = 2 \<and>
      Nonce (Header block) = 3"
  proof -
    define munged where "munged = additionalTx \<lparr>TxIn = [], TxOut = []\<rparr> draft"
    define sealed where "sealed = sealBlock sample_chain (MerkleRoot (Header draft)) munged"
    define solved where "solved = sealed\<lparr>Header := (Header sealed)\<lparr>Nonce := 3\<rparr>\<rparr>"
    have f: "foldl (\<lambda>block f. f block) draft [additionalTx \<lparr>TxIn = [], TxOut = []\<rparr>] = munged"
      by (simp add: munged_def)
    note T = nextBlock_recalculates_and_solves [OF txns tip sign,
        of "[additionalTx \<lparr>TxIn = [], TxOut = []\<rparr>]" "''b1''",
        unfolded Let_def, folded draft_def, unfolded f, folded sealed_def]
    have m: "MerkleRoot (Header munged) = MerkleRoot (Header draft)"
      "Nonce (Header munged) = Nonce (Header draft)"
      "Transactions munged = [cb, \<lparr>TxIn = [], TxOut = []\<rparr>]"
      "Bits (Header munged) = 0"
      by (simp_all add: munged_def additionalTx_def d)
    from T have n0: "Nonce (Header munged) = 0" by (simp add: m)
    from T m(1) have "MerkleRoot (Header sealed) = calcMerkleRoot sample_chain (Transactions munged)"
      by blast
    then have root: "MerkleRoot (Header sealed) = 2"
      by (simp add: m calcMerkleRoot_def sample_chain_simps)
    from T have tx: "Transactions sealed = [cb, \<lparr>TxIn = [], TxOut = []\<rparr>]" by (simp add: m)
    have bits: "Bits (Header sealed) = 0"
      by (simp add: sealed_def sealBlock_def Let_def m sample_chain_simps)
    have sol: "solveBlock sample_chain (Header sealed) =
        Some (Inr (True, (Header sealed)\<lparr>Nonce := 3\<rparr>))"
      by (rule sample_solveBlock [OF bits])
    from T n0 have run: "nextBlock sample_chain sample_generator ''b1'' None
          [additionalTx \<lparr>TxIn = [], TxOut = []\<rparr>] =
        Some (Inr (solved, registerBlock sample_chain sample_generator ''b1'' solved))"
      by (simp add: sol solved_def)
    have "length (Transactions solved) = 2"
      and "MerkleRoot (Header solved) = calcMerkleRoot sample_chain (Transactions solved)"
      and "MerkleRoot (Header solved) = 2"
      and "Nonce (Header solved) = 3"
      by (simp_all add: solved_def tx root calcMerkleRoot_def sample_chain_simps)
    with run show ?thesis by blast
  qed
  from first second show ?thesis by blast
qed

subsection \<open>Generate\<close>

lemma receive_returns:
  assumes "n \<le> length order"
    and "\<forall>w \<in> set order. w < length results \<and> results ! w \<noteq> None"
  shows "\<exists>r. receive n results order header = Some r"
  using assms
proof (induction n arbitrary: order)
  case 0
  then show ?case by auto
next
  case (Suc n)
  then obtain w ws where o: "order = w # ws" by (cases order) auto
  with Suc.prems obtain res where w: "w < length results" "results ! w = Some res"
    by auto
  have "\<exists>r. receive n results ws header = Some r"
    using Suc.IH [of ws] Suc.prems o by auto
  then show ?case
    using o w by auto
qed

lemma workers_return:
  assumes "w < unat n"
  shows "workers E header n ! w \<noteq> None"
proof -
  have "rangeStart n (of_nat w) \<noteq> 0"
    using rangeStart_ge_1 [OF assms] by auto
  from solver_returns [OF this] show ?thesis
    unfolding workers_at [OF assms] by (metis option.distinct(1))
qed

lemma solveBlock_returns:
  assumes "every_worker_reports E"
  shows "\<exists>r. solveBlock E header = Some r"
proof -
  from assms have nz: "NumCPU E \<noteq> 0"
    and d: "distinct (arrival E header)"
    and s: "set (arrival E header) = {..< unat (NumCPU E)}"
    by (simp_all add: every_worker_reports_def)
  have "length (arrival E header) = card {..< unat (NumCPU E)}"
    using distinct_card [OF d] s by simp
  then have l: "unat (NumCPU E) \<le> length (arrival E header)" by simp
  have "\<forall>w \<in> set (arrival E header).
          w < length (workers E header (NumCPU E)) \<and> workers E header (NumCPU E) ! w \<noteq> None"
    using s workers_return by (auto simp add: workers_length)
  from receive_returns [OF l this]
  obtain r where "receive (unat (NumCPU E)) (workers E header (NumCPU E)) (arrival E header) header
      = Some r" by blast
  then show ?thesis
    using nz by (simp add: solveBlock_def Let_def)
qed

lemma nextBlock_returns:
  assumes "every_worker_reports E"
  shows "returns (nextBlock E g blockName spend mungers)"
proof -
  obtain r where "solveBlock E (Header (sealBlock E
      (MerkleRoot (Header (draftBlock E g (the (tip g)) (projr (blockTransactions E g spend)))))
      (munge mungers (draftBlock E g (the (tip g)) (projr (blockTransactions E g spend)))))) = Some r"
    using solveBlock_returns [OF assms] by blast
  then show ?thesis
    unfolding returns_def nextBlock_def Let_def
    by (auto split: sum.splits option.splits prod.splits)
qed

lemma returns_andThen:
  assumes "returns m" and "\<And>x. returns (f x)"
  shows "returns (andThen m f)"
  using assms by (auto simp add: returns_def andThen_def split: option.splits sum.splits)

lemma returns_Some: "returns (Some x)"
  by (simp add: returns_def)

lemma returns_returned: "returns (returned x)"
  by (simp add: returns_def returned_def)

lemma returns_outAt: "returns (outAt outs i)"
  by (simp add: returns_def outAt_def)

lemma nextBlockStmt_returns:
  assumes "every_worker_reports E"
  shows "returns (nextBlockStmt E blockName spend mungers g)"
  unfolding nextBlockStmt_def
  by (intro returns_andThen nextBlock_returns [OF assms]) (simp add: returns_def split: prod.splits)

lemma nextBlockRun_returns:
  assumes "every_worker_reports E"
  shows "returns (nextBlockRun E blockName spend mungers s)"
  unfolding nextBlockRun_def
  by (intro returns_andThen nextBlockStmt_returns [OF assms] returns_Some)

lemma matureLoop_returns:
  assumes "every_worker_reports F"
  shows "returns (matureLoop F n i s)"
  using assms
proof (induction F n i s rule: matureLoop.induct)
  case (1 F n i g testInstances)
  show ?case
  proof (cases "i < n")
    case False
    then show ?thesis by (simp add: returns_def)
  next
    case True
    from nextBlockStmt_returns [OF "1.prems", of "''bm'' @ decimal i" None "[]" g]
    obtain r where r: "nextBlockStmt F (''bm'' @ decimal i) None [] g = Some r"
      unfolding returns_def by blast
    show ?thesis
    proof (cases r)
      case (Inl p)
      then show ?thesis using True r by (simp add: returns_def Let_def)
    next
      case g1: (Inr g1)
      show ?thesis
      proof (cases "saveTipCoinbaseOut F g1")
        case (Inl p)
        then show ?thesis using True r g1 by (simp add: returns_def Let_def)
      next
        case g2: (Inr g2)
        have "returns (matureLoop F n (Suc i)
            (g2, testInstances @ [acceptBlock F g2 (tipName g2) (tip g2) True False]))"
          using "1.IH" [OF True refl _ refl g2 "1.prems"] r g1 by simp
        then show ?thesis using True r g1 g2 by (simp add: Let_def)
      qed
    qed
  qed
qed

lemma collectLoop_returns: "returns (collectLoop n i s)"
proof (induction n i s rule: collectLoop.induct)
  case (1 n i g outs)
  show ?case
  proof (cases "i < n")
    case False
    then show ?thesis by (simp add: returns_def)
  next
    case True
    show ?thesis
    proof (cases "oldestCoinbaseOut g")
      case (Inl p)
      then show ?thesis using True by (simp add: returns_def)
    next
      case (Inr r)
      obtain op g1 where "r = (op, g1)" by (cases r)
      with Inr True "1.IH" show ?thesis by simp
    qed
  qed
qed

lemma ends_well_andThen:
  assumes "returns m" and "\<And>x. ends_well (f x)"
  shows "ends_well (andThen m f)"
proof (cases m)
  case None
  with assms(1) show ?thesis by (simp add: returns_def)
next
  case (Some r)
  show ?thesis
  proof (cases r)
    case (Inl p)
    with Some show ?thesis by (simp add: andThen_def ends_well_def)
  next
    case (Inr x)
    with Some have "andThen m f = f x" by (simp add: andThen_def)
    with assms(2) [of x] show ?thesis by simp
  qed
qed

lemma ends_well_prod:
  assumes "\<And>a b. ends_well (f a b)"
  shows "ends_well (case x of (a, b) \<Rightarrow> f a b)"
  using assms by (cases x) simp

lemma ends_well_final:
  assumes "xs \<noteq> []"
  shows "ends_well (Some (Inr (sliceOf xs, None)))"
  using assms by (simp add: ends_well_def all_or_nothing_def sliceOf_def)

lemma generateBody_ends_well:
  assumes "every_worker_reports F"
  shows "ends_well (generateBody F)"
proof (cases "makeTestGenerator F (RegressionNetParams F)")
  case (Inl err)
  then show ?thesis
    by (simp add: generateBody_def ends_well_def all_or_nothing_def)
next
  case (Inr g)
  show ?thesis
    unfolding generateBody_def Inr sum.case Let_def
    by (intro ends_well_andThen ends_well_prod ends_well_final returns_returned returns_outAt
        nextBlockRun_returns [OF assms] matureLoop_returns [OF assms] collectLoop_returns)
      (simp add: rejectedRun_def rejected_def)
qed

text \<open>
  C9. \<open>Generate\<close> is all or nothing. When every worker of \<open>solveBlock\<close> reports,
  every run of \<open>Generate\<close> returns, and it returns either tests that are not nil
  together with a nil error, or nil tests together with an error. A panic of the body
  (the nil dereferences and index errors of the generator, the panic of \<open>nextBlock\<close>
  when the solver finds no nonce) does not leave \<open>Generate\<close>: it returns nil tests
  and an error, for a panic with a string the error with that string.
\<close>

theorem Generate_all_or_nothing:
  assumes "every_worker_reports F"
  shows "((\<exists>tests. tests \<noteq> [] \<and> Generate F includeLargeReorg = Some (Some tests, None)) \<or>
          (\<exists>err. Generate F includeLargeReorg = Some (None, Some err))) \<and>
         (\<forall>p. generateBody F = Some (Inl p) \<longrightarrow>
            (\<exists>err. Generate F includeLargeReorg = Some (None, Some err))) \<and>
         (\<forall>msg. generateBody F = Some (Inl (PanicString msg)) \<longrightarrow>
            Generate F includeLargeReorg = Some (None, Some (Error msg)))"
proof -
  from generateBody_ends_well [OF assms]
  have "(\<exists>tests. tests \<noteq> [] \<and> Generate F includeLargeReorg = Some (Some tests, None)) \<or>
        (\<exists>err. Generate F includeLargeReorg = Some (None, Some err))"
    by (auto simp add: ends_well_def Generate_def all_or_nothing_def split: option.splits sum.splits)
  moreover have "\<forall>p. generateBody F = Some (Inl p) \<longrightarrow>
            (\<exists>err. Generate F includeLargeReorg = Some (None, Some err))"
    by (simp add: Generate_def)
  moreover have "\<forall>msg. generateBody F = Some (Inl (PanicString msg)) \<longrightarrow>
            Generate F includeLargeReorg = Some (None, Some (Error msg))"
    by (simp add: Generate_def)
  ultimately show ?thesis by blast
qed

lemma sample_fixtures_simps:
  "Sign sample_fixtures = (\<lambda>h. h)"
  "BlockHash sample_fixtures = (\<lambda>h. ucast ((Nonce h + 5) mod 8))"
  "NumCPU sample_fixtures = 2"
  "arrival sample_fixtures = (\<lambda>h. [0, 1])"
  "RegressionNetParams sample_fixtures = sample_params"
  by (simp_all add: sample_fixtures_def)

lemma sample_fixtures_report: "every_worker_reports sample_fixtures"
proof -
  have "{..< unat (2 :: 32 word)} = {0, 1}" by auto
  then show ?thesis
    by (simp add: every_worker_reports_def sample_fixtures_simps)
qed

theorem Generate_all_or_nothing_witness:
  "every_worker_reports sample_fixtures \<and>
   generateBody sample_fixtures = Some (Inl index_out_of_range) \<and>
   Generate sample_fixtures False =
     Some (None, Some (Error ''runtime error: index out of range''))"
proof -
  have b: "generateBody sample_fixtures = Some (Inl index_out_of_range)"
    by (simp add: generateBody_def makeTestGenerator_def Let_def sample_fixtures_simps
        sample_params_def makeSpendableOut_def andThen_def returned_def)
  have "Generate sample_fixtures False = Some (None, Some (Error ''runtime error: index out of range''))"
    by (simp add: Generate_def b index_out_of_range_def)
  with Generate_all_or_nothing [OF sample_fixtures_report, of False] b sample_fixtures_report
  show ?thesis by blast
qed

end
